theory Spec2Isabelle
  imports Main "HOL-Library.Char_ord" "HOL-Library.List_Lexorder"
    "HOL-Library.Product_Lexorder" "HOL-Library.Multiset"
begin

section \<open>Errors and endpoints\<close>

text \<open>
  The server command of \<^verbatim>\<open>cmd/server-main.go\<close> parses the disk arguments of the
  command line into URLs, validates them, and then brings the server up step by step.
  Every validation failure ends the process through \<^verbatim>\<open>fatalIf\<close>. The embedding
  keeps errors as values: a Go \<^verbatim>\<open>error\<close> is a value of type \<open>error\<close>, the end of the
  process is a value of type \<open>exit\<close>, and the calls to the collaborators of the file
  are recorded as a list of events.
\<close>

text \<open>The error of Go's \<^verbatim>\<open>net\<close> package: \<^verbatim>\<open>&AddrError{Err: why, Addr: addr}\<close>.\<close>

datatype AddrError = AddrError (Err: string) (Addr: string)

text \<open>
  The error values the file handles. The five sentinels are package variables of the
  repository (only \<^verbatim>\<open>errEmptyPort\<close> is declared in this file); \<open>Errorf\<close> carries the
  rendered message of a \<^verbatim>\<open>fmt.Errorf\<close>; \<open>ErrorfSyntax e p d\<close> is the error of line 235,
  \<^verbatim>\<open>fmt.Errorf("%s: %s (%s)", err.Error(), u.Path, disks[i])\<close>, kept by its three
  arguments; \<open>External\<close> is an error of a collaborator outside this file.
\<close>

datatype error =
    errInvalidArgument
  | errXLMaxDisks
  | errXLMinDisks
  | errXLNumDisks
  | errEmptyPort
  | NetAddrError AddrError
  | Errorf string
  | ErrorfSyntax error string string
  | External string

text \<open>A run-time panic of Go: the only one the file can raise is an index out of range.\<close>

datatype panic = IndexOutOfRange

text \<open>
  How the process ends before it serves: \<open>Fatal err msg\<close> is \<^verbatim>\<open>fatalIf(err, msg, ...)\<close>
  with a non-nil \<open>err\<close> (\<open>msg\<close> is the format string as the source writes it),
  \<open>Panicked\<close> a run-time panic, \<open>HelpAndExit\<close> is \<^verbatim>\<open>cli.ShowCommandHelpAndExit\<close>, and
  \<open>WaitsForFormat\<close> stands for \<^verbatim>\<open>waitForFormatDisks\<close> not returning.
\<close>

datatype exit = Fatal error string | Panicked panic | HelpAndExit | WaitsForFormat

text \<open>
  Go's \<^verbatim>\<open>url.URL\<close>, by the fields that \<^verbatim>\<open>url.Parse\<close> fills for a disk argument: the
  file reads \<open>Scheme\<close>, \<open>Host\<close> and \<open>Path\<close>; \<open>Opaque\<close> holds what follows the colon of an
  argument such as a Windows drive path, whose \<open>Host\<close> and \<open>Path\<close> are empty.
\<close>

record URL =
  Scheme :: string
  Opaque :: string
  Host :: string
  Path :: string

text \<open>
  The calls that \<^verbatim>\<open>serverMain\<close> makes to the rest of the server, in the order of the
  source. \<open>ListenAndServe tls\<close> is the start of the listener in its own goroutine.
\<close>

datatype event =
    ShowCommandHelpAndExit
  | MinioInit
  | CheckUpdate
  | CheckPortAvailability string
  | InitStorageDisks "URL list"
  | HouseKeeping
  | CreateCertsPath
  | LoadRootCAs
  | SaveServerConfig
  | SetMaxOpenFiles
  | SetMaxMemory
  | ConfigureServerHandler string "URL list"
  | InitDsyncNodes "URL list"
  | InitNSLock bool
  | NewServerMux string
  | GetLocalAddress
  | FinalizeAPIEndpoints
  | InitGlobalS3Peers "URL list"
  | InitGlobalAdminPeers "URL list"
  | ListenAndServe bool
  | WaitForFormatDisks bool "URL list"
  | NewObjectLayer
  | SetGlobalObjectAPI
  | PrintStartupMessage

section \<open>The environment\<close>

text \<open>
  What the file takes from outside: the platform, the two constants of the erasure
  code, the global \<^verbatim>\<open>globalIsSSL\<close>, the functions of Go's \<^verbatim>\<open>net/url\<close> and \<^verbatim>\<open>strconv\<close>
  it calls, and the functions of the repository that are declared in other files. Each
  is a field here, so every theorem holds whatever these are. A collaborator that can
  fail is given by the error it returns (\<open>None\<close> is Go's \<^verbatim>\<open>nil\<close>);
  \<^verbatim>\<open>waitForFormatDisks\<close> may also not return, which is the outer \<open>None\<close>.
  \<open>envCredentials\<close> is the test of line 142 on the two environment variables.
  \<open>sort_longSlice\<close> is what Go's \<^verbatim>\<open>sort.Sort\<close> does on a slice of seven elements or more.
\<close>

record env =
  GOOS :: string
  maxErasureBlocks :: int
  minErasureBlocks :: int
  globalIsSSL :: bool
  url_Parse :: "string \<Rightarrow> error + URL"
  url_String :: "URL \<Rightarrow> string"
  strconv_Atoi :: "string \<Rightarrow> error option"
  isLocalStorage :: "URL \<Rightarrow> bool"
  checkDuplicateEndpoints :: "URL list \<Rightarrow> error option"
  checkPortAvailability :: "string \<Rightarrow> error option"
  initStorageDisks :: "URL list \<Rightarrow> error option"
  houseKeeping :: "error option"
  createCertsPath :: "error option"
  envCredentials :: bool
  serverConfig_Save :: "error option"
  configureServerHandler :: "string \<Rightarrow> URL list \<Rightarrow> error option"
  initDsyncNodes :: "URL list \<Rightarrow> error option"
  finalizeAPIEndpoints :: "error option"
  waitForFormatDisks :: "bool \<Rightarrow> URL list \<Rightarrow> error option option"
  newObjectLayer :: "error option"
  sort_longSlice :: "(URL \<Rightarrow> URL \<Rightarrow> bool) \<Rightarrow> URL list \<Rightarrow> URL list"

section \<open>Strings, host and port, paths: the Go standard library\<close>

text \<open>
  \<^verbatim>\<open>strings.IndexByte\<close>, \<^verbatim>\<open>strings.LastIndexByte\<close>, \<^verbatim>\<open>strings.HasPrefix\<close> and
  \<^verbatim>\<open>strings.Contains\<close>; an index that Go reports as \<open>-1\<close> is \<open>None\<close>.
\<close>

fun IndexByte :: "string \<Rightarrow> char \<Rightarrow> nat option" where
  "IndexByte [] c = None"
| "IndexByte (x # xs) c = (if x = c then Some 0 else map_option Suc (IndexByte xs c))"

definition LastIndexByte :: "string \<Rightarrow> char \<Rightarrow> nat option" where
  "LastIndexByte s c =
     (case IndexByte (rev s) c of None \<Rightarrow> None | Some k \<Rightarrow> Some (length s - 1 - k))"

fun strings_HasPrefix :: "string \<Rightarrow> string \<Rightarrow> bool" where
  "strings_HasPrefix s [] = True"
| "strings_HasPrefix [] (p # ps) = False"
| "strings_HasPrefix (x # xs) (p # ps) = (x = p \<and> strings_HasPrefix xs ps)"

fun strings_Contains :: "string \<Rightarrow> string \<Rightarrow> bool" where
  "strings_Contains [] substr = (substr = [])"
| "strings_Contains (x # xs) substr =
     (strings_HasPrefix (x # xs) substr \<or> strings_Contains xs substr)"

text \<open>\<^verbatim>\<open>strings.SplitN(s, sep, 2)\<close> for a separator of one byte: a split at its first occurrence.\<close>

definition strings_SplitN2 :: "string \<Rightarrow> char \<Rightarrow> string list" where
  "strings_SplitN2 s sep =
     (case IndexByte s sep of None \<Rightarrow> [s] | Some i \<Rightarrow> [take i s, drop (i + 1) s])"

text \<open>The message of an \<^verbatim>\<open>AddrError\<close>, its method \<^verbatim>\<open>Error()\<close>.\<close>

definition AddrError_Error :: "AddrError \<Rightarrow> string" where
  "AddrError_Error e =
     (if Addr e \<noteq> [] then ''address '' @ Addr e @ '': '' @ Err e else Err e)"

text \<open>
  \<^verbatim>\<open>net.SplitHostPort\<close>. The port starts after the last colon; a host in brackets must
  end just before that colon. \<open>splitHostPortTail\<close> is the end of the function, the two
  tests for a stray bracket after the positions \<open>j\<close> and \<open>k\<close>.
\<close>

definition splitHostPortTail ::
  "string \<Rightarrow> nat \<Rightarrow> string \<Rightarrow> nat \<Rightarrow> nat \<Rightarrow> AddrError + (string \<times> string)" where
  "splitHostPortTail hostport i host j k =
     (if IndexByte (drop j hostport) CHR ''['' \<noteq> None
        then Inl (AddrError ''unexpected '[' in address'' hostport)
      else if IndexByte (drop k hostport) CHR '']'' \<noteq> None
        then Inl (AddrError ''unexpected ']' in address'' hostport)
      else Inr (host, drop (i + 1) hostport))"

definition net_SplitHostPort :: "string \<Rightarrow> AddrError + (string \<times> string)" where
  "net_SplitHostPort hostport =
     (case LastIndexByte hostport CHR '':'' of
        None \<Rightarrow> Inl (AddrError ''missing port in address'' hostport)
      | Some i \<Rightarrow>
          if hd hostport = CHR ''['' then
            (case IndexByte hostport CHR '']'' of
               None \<Rightarrow> Inl (AddrError ''missing ']' in address'' hostport)
             | Some e \<Rightarrow>
                 if e + 1 = length hostport
                   then Inl (AddrError ''missing port in address'' hostport)
                 else if e + 1 = i
                   then splitHostPortTail hostport i (take (e - 1) (drop 1 hostport)) 1 (e + 1)
                 else if hostport ! (e + 1) = CHR '':''
                   then Inl (AddrError ''too many colons in address'' hostport)
                 else Inl (AddrError ''missing port in address'' hostport))
          else
            (let host = take i hostport in
             if IndexByte host CHR '':'' \<noteq> None
               then Inl (AddrError ''too many colons in address'' hostport)
             else splitHostPortTail hostport i host 0 0))"

text \<open>\<^verbatim>\<open>net.JoinHostPort\<close>: a host with a colon is put in brackets.\<close>

definition net_JoinHostPort :: "string \<Rightarrow> string \<Rightarrow> string" where
  "net_JoinHostPort host port =
     (if IndexByte host CHR '':'' \<noteq> None then ''['' @ host @ '']:'' @ port
      else host @ '':'' @ port)"

text \<open>
  \<^verbatim>\<open>path.Clean\<close>, by the elements between slashes: empty elements and \<^verbatim>\<open>.\<close> are dropped,
  \<^verbatim>\<open>..\<close> removes the element before it when there is one that is not \<^verbatim>\<open>..\<close>, is kept at
  the start of a path that is not rooted, and is dropped at the start of a rooted
  one; the empty result is \<^verbatim>\<open>.\<close>. \<open>out\<close> is the output so far, last element first.
\<close>

fun splitSlash :: "string \<Rightarrow> string list" where
  "splitSlash [] = [[]]"
| "splitSlash (c # cs) =
     (if c = CHR ''/'' then [] # splitSlash cs
      else case splitSlash cs of [] \<Rightarrow> [[c]] | e # es \<Rightarrow> (c # e) # es)"

fun joinSlash :: "string list \<Rightarrow> string" where
  "joinSlash [] = []"
| "joinSlash [e] = e"
| "joinSlash (e # es) = e @ ''/'' @ joinSlash es"

fun cleanElements :: "bool \<Rightarrow> string list \<Rightarrow> string list \<Rightarrow> string list" where
  "cleanElements rooted out [] = rev out"
| "cleanElements rooted out (e # es) =
     (if e = [] \<or> e = ''.'' then cleanElements rooted out es
      else if e = ''..'' then
        (if out \<noteq> [] \<and> hd out \<noteq> ''..'' then cleanElements rooted (tl out) es
         else if \<not> rooted then cleanElements rooted (e # out) es
         else cleanElements rooted out es)
      else cleanElements rooted (e # out) es)"

definition path_Clean :: "string \<Rightarrow> string" where
  "path_Clean p =
     (if p = [] then ''.''
      else let rooted = (hd p = CHR ''/'');
               s = (if rooted then ''/'' else []) @
                   joinSlash (cleanElements rooted [] (splitSlash p))
           in if s = [] then ''.'' else s)"

text \<open>
  \<^verbatim>\<open>insertionSort\<close> of Go's \<^verbatim>\<open>sort\<close> package: each element in turn moves left while it is
  less than its left neighbour. \<open>sinkLeft\<close> takes the sorted prefix with its last
  element first.
\<close>

fun sinkLeft :: "('a \<Rightarrow> 'a \<Rightarrow> bool) \<Rightarrow> 'a \<Rightarrow> 'a list \<Rightarrow> 'a list" where
  "sinkLeft lt x [] = [x]"
| "sinkLeft lt x (p # ps) = (if lt x p then p # sinkLeft lt x ps else x # p # ps)"

definition insertionSort :: "('a \<Rightarrow> 'a \<Rightarrow> bool) \<Rightarrow> 'a list \<Rightarrow> 'a list" where
  "insertionSort lt xs = rev (foldl (\<lambda>acc x. sinkLeft lt x acc) [] xs)"

text \<open>
  \<^verbatim>\<open>sort.Sort\<close>, which is not stable. On a slice of fewer than seven elements every
  version of Go runs \<^verbatim>\<open>insertionSort\<close> alone. On a longer slice the algorithm depends on
  the version of Go (a pass of Shell sort, quick sort, heap sort) and may exchange
  elements that compare equal; there it is the field \<open>sort_longSlice\<close> of the
  environment, of which nothing is assumed.
\<close>

definition sort_Sort :: "env \<Rightarrow> (URL \<Rightarrow> URL \<Rightarrow> bool) \<Rightarrow> URL list \<Rightarrow> URL list" where
  "sort_Sort E lt xs = (if length xs < 7 then insertionSort lt xs else sort_longSlice E lt xs)"

section \<open>Parsing the endpoints\<close>

text \<open>
  \<^verbatim>\<open>parseStorageEndpoints\<close> (lines 93-130). \<open>endpointPort\<close> is lines 104-108: the port of
  \<^verbatim>\<open>u.Host\<close>, where the error of a missing port is ignored and leaves the port empty.
  \<open>parseStorageEndpoint\<close> is the body of the loop for one argument and
  \<open>parseStorageEndpoints_loop\<close> the loop, with the slice \<open>endpoints\<close> built so far. The
  globals \<^verbatim>\<open>globalMinioHost\<close> and \<^verbatim>\<open>globalMinioPort\<close> are arguments.
\<close>

definition endpointPort :: "string \<Rightarrow> error + string" where
  "endpointPort hostport =
     (case net_SplitHostPort hostport of
        Inr (_, port) \<Rightarrow> Inr port
      | Inl err \<Rightarrow>
          if \<not> strings_Contains (AddrError_Error err) ''missing port in address''
            then Inl (NetAddrError err)
          else Inr [])"

definition parseStorageEndpoint :: "env \<Rightarrow> string \<Rightarrow> string \<Rightarrow> string \<Rightarrow> error + URL" where
  "parseStorageEndpoint E globalMinioHost globalMinioPort ep =
     (if ep = [] then Inl errInvalidArgument
      else case url_Parse E ep of
        Inl err \<Rightarrow> Inl err
      | Inr u \<Rightarrow>
          if Host u \<noteq> [] then
            (case endpointPort (Host u) of
               Inl err \<Rightarrow> Inl err
             | Inr port \<Rightarrow>
                 if globalMinioHost = [] then
                   if port \<noteq> [] then
                     Inl (Errorf (''Invalid Argument '' @ Host u @
                            '', port configurable using --address :<port>''))
                   else Inr (u\<lparr>Host := net_JoinHostPort (Host u) globalMinioPort\<rparr>)
                 else
                   if port = [] then
                     Inl (Errorf (''Invalid Argument '' @ Host u @
                            '', port mandatory when --address <host>:<port> is used''))
                   else Inr u)
          else Inr u)"

fun parseStorageEndpoints_loop ::
  "env \<Rightarrow> string \<Rightarrow> string \<Rightarrow> URL list \<Rightarrow> string list \<Rightarrow> error + URL list" where
  "parseStorageEndpoints_loop E gh gp endpoints [] = Inr endpoints"
| "parseStorageEndpoints_loop E gh gp endpoints (ep # eps) =
     (case parseStorageEndpoint E gh gp ep of
        Inl err \<Rightarrow> Inl err
      | Inr u \<Rightarrow> parseStorageEndpoints_loop E gh gp (endpoints @ [u]) eps)"

definition parseStorageEndpoints ::
  "env \<Rightarrow> string \<Rightarrow> string \<Rightarrow> string list \<Rightarrow> error + URL list" where
  "parseStorageEndpoints E gh gp eps = parseStorageEndpoints_loop E gh gp [] eps"

section \<open>Disk count\<close>

text \<open>
  \<^verbatim>\<open>checkSufficientDisks\<close> (lines 161-184). The constants \<^verbatim>\<open>maxErasureBlocks\<close> and
  \<^verbatim>\<open>minErasureBlocks\<close> are declared outside this file and are parameters here; the
  comment of line 177 (only 4, 6, ..., 16 disks are supported) gives their values,
  16 and 4.
\<close>

definition isEven :: "int \<Rightarrow> bool" where
  "isEven number = (number mod 2 = 0)"

definition checkSufficientDisks :: "int \<Rightarrow> int \<Rightarrow> URL list \<Rightarrow> error option" where
  "checkSufficientDisks maxBlocks minBlocks eps =
     (let total = int (length eps) in
      if total > maxBlocks then Some errXLMaxDisks
      else if total < minBlocks then Some errXLMinDisks
      else if \<not> isEven total then Some errXLNumDisks
      else None)"

text \<open>\<^verbatim>\<open>isDistributedSetup\<close> (lines 187-197) and \<^verbatim>\<open>isAnyEndpointLocal\<close> (lines 310-319).\<close>

fun isDistributedSetup :: "env \<Rightarrow> URL list \<Rightarrow> bool" where
  "isDistributedSetup E [] = False"
| "isDistributedSetup E (ep # eps) =
     (if \<not> isLocalStorage E ep then True else isDistributedSetup E eps)"

fun isAnyEndpointLocal :: "env \<Rightarrow> URL list \<Rightarrow> bool" where
  "isAnyEndpointLocal E [] = False"
| "isAnyEndpointLocal E (ep # eps) =
     (if isLocalStorage E ep then True else isAnyEndpointLocal E eps)"

section \<open>Syntax of one endpoint\<close>

text \<open>
  \<^verbatim>\<open>checkEndpointURL\<close> (lines 200-229). \<open>rootPath\<close> is the test of lines 204 and 220.
  On Windows the path of a drive is what follows the first colon of the cleaned
  \<^verbatim>\<open>endpointURL.String()\<close>; the index \<^verbatim>\<open>[1]\<close> panics when the split gives one part.
\<close>

definition rootPath :: "string \<Rightarrow> bool" where
  "rootPath urlPath =
     (urlPath = [] \<or> urlPath = ''.'' \<or> urlPath = ''/'' \<or> urlPath = [CHR 0x5C])"

definition checkEndpointURL :: "env \<Rightarrow> URL \<Rightarrow> panic + error option" where
  "checkEndpointURL E endpointURL =
     (if Scheme endpointURL = [] \<or> Scheme endpointURL = ''http'' \<or>
         Scheme endpointURL = ''https''
      then
        (let urlPath = path_Clean (Path endpointURL) in
         if rootPath urlPath then Inr (Some (Errorf ''Empty or root path is not allowed''))
         else Inr None)
      else if GOOS E = ''windows'' \<and> length (Scheme endpointURL) = 1 \<and>
              CHR ''a'' \<le> hd (Scheme endpointURL) \<and> hd (Scheme endpointURL) \<le> CHR ''z''
      then
        (case strings_SplitN2 (path_Clean (url_String E endpointURL)) CHR '':'' of
           _ # urlPath # _ \<Rightarrow>
             if rootPath urlPath then Inr (Some (Errorf ''Empty or root path is not allowed''))
             else Inr None
         | _ \<Rightarrow> Inl IndexOutOfRange)
      else Inr (Some (Errorf ''Invalid scheme'')))"

text \<open>
  \<^verbatim>\<open>checkEndpointsSyntax\<close> (lines 232-240): \<open>disks\<close> is what is left of the arguments at
  the index of the loop, and \<^verbatim>\<open>disks[i]\<close> is read only to report an error.
\<close>

fun checkEndpointsSyntax :: "env \<Rightarrow> URL list \<Rightarrow> string list \<Rightarrow> panic + error option" where
  "checkEndpointsSyntax E [] disks = Inr None"
| "checkEndpointsSyntax E (u # eps) disks =
     (case checkEndpointURL E u of
        Inl p \<Rightarrow> Inl p
      | Inr (Some err) \<Rightarrow>
          (case disks of
             [] \<Rightarrow> Inl IndexOutOfRange
           | d # _ \<Rightarrow> Inr (Some (ErrorfSyntax err (Path u) d)))
      | Inr None \<Rightarrow> checkEndpointsSyntax E eps (tl disks))"

section \<open>Syntax of the command line\<close>

text \<open>
  Modelled from the spec: \<^verbatim>\<open>fatalIf\<close> is declared outside this file. By section 7 of
  the specification every validation failure is fatal and ends the process with a
  diagnostic; a nil error lets the run go on.
\<close>

definition fatalIf :: "error option \<Rightarrow> string \<Rightarrow> exit + unit" where
  "fatalIf err msg = (case err of None \<Rightarrow> Inr () | Some e \<Rightarrow> Inl (Fatal e msg))"

text \<open>
  \<^verbatim>\<open>checkServerSyntax\<close> (lines 243-307), in the blocks of the source:
  \<open>checkDiskCount\<close> is lines 262-271, \<open>checkBindAddress\<close> lines 279-299 with \<open>foundCnt\<close>
  the counter of its loop, \<open>checkCertificates\<close> lines 301-306, \<open>checkDistributed\<close> lines
  278-306, \<open>checkEndpoints\<close> lines 254-306, and \<open>checkServerSyntax\<close> the whole function.
\<close>

definition checkDiskCount :: "env \<Rightarrow> URL list \<Rightarrow> exit + unit" where
  "checkDiskCount E endpoints =
     (if length endpoints > 1 then
        fatalIf (checkSufficientDisks (maxErasureBlocks E) (minErasureBlocks E) endpoints)
          ''Invalid number of disks supplied.''
      else
        (case endpoints of
           [] \<Rightarrow> Inl (Panicked IndexOutOfRange)
         | e0 # _ \<Rightarrow>
             if Host e0 \<noteq> [] \<and> Scheme e0 \<noteq> [] then
               fatalIf (Some errInvalidArgument) ''%s, FS setup expects a filesystem path''
             else Inr ()))"

fun foundCnt :: "string \<Rightarrow> URL list \<Rightarrow> int" where
  "foundCnt serverAddr [] = 0"
| "foundCnt serverAddr (ep # eps) =
     (if Host ep = serverAddr then foundCnt serverAddr eps + 1 else foundCnt serverAddr eps)"

definition checkBindAddress :: "string \<Rightarrow> string \<Rightarrow> string \<Rightarrow> URL list \<Rightarrow> exit + unit" where
  "checkBindAddress serverAddr host portStr endpoints =
     (if host \<noteq> [] then
        if portStr = [] then
          fatalIf (Some errInvalidArgument)
            ''Port missing, Host:Port should be specified for --address''
        else if foundCnt serverAddr endpoints = 0 then
          fatalIf (Some errInvalidArgument) ''%s is not available in %s''
        else if foundCnt serverAddr endpoints > 1 then
          fatalIf (Some errInvalidArgument) ''%s matches % entries in %s''
        else Inr ()
      else Inr ())"

fun checkCertificates :: "env \<Rightarrow> URL list \<Rightarrow> exit + unit" where
  "checkCertificates E [] = Inr ()"
| "checkCertificates E (ep # eps) =
     (if Scheme ep = ''https'' \<and> \<not> globalIsSSL E then
        fatalIf (Some errInvalidArgument) ''Certificates not provided for secure configuration''
      else checkCertificates E eps)"

definition checkDistributed ::
  "env \<Rightarrow> string \<Rightarrow> string \<Rightarrow> string \<Rightarrow> URL list \<Rightarrow> exit + unit" where
  "checkDistributed E serverAddr host portStr endpoints =
     (case checkBindAddress serverAddr host portStr endpoints of
        Inl x \<Rightarrow> Inl x
      | Inr _ \<Rightarrow> checkCertificates E endpoints)"

definition checkEndpoints ::
  "env \<Rightarrow> string \<Rightarrow> string \<Rightarrow> string \<Rightarrow> URL list \<Rightarrow> string list \<Rightarrow> exit + unit" where
  "checkEndpoints E serverAddr host portStr endpoints disks =
     (case checkEndpointsSyntax E endpoints disks of
        Inl p \<Rightarrow> Inl (Panicked p)
      | Inr (Some err) \<Rightarrow> Inl (Fatal err ''Invalid endpoints found %s'')
      | Inr None \<Rightarrow>
     (case fatalIf (checkDuplicateEndpoints E endpoints) ''Duplicate entries in %s'' of
        Inl x \<Rightarrow> Inl x
      | Inr _ \<Rightarrow>
     (case checkDiskCount E endpoints of
        Inl x \<Rightarrow> Inl x
      | Inr _ \<Rightarrow>
          if \<not> isDistributedSetup E endpoints then Inr ()
          else checkDistributed E serverAddr host portStr endpoints)))"

definition checkServerSyntax ::
  "env \<Rightarrow> string \<Rightarrow> string \<Rightarrow> string \<Rightarrow> string list \<Rightarrow> exit + unit" where
  "checkServerSyntax E globalMinioHost globalMinioPort serverAddr disks =
     (case net_SplitHostPort serverAddr of
        Inl err \<Rightarrow> Inl (Fatal (NetAddrError err) ''Unable to parse %s.'')
      | Inr (host, portStr) \<Rightarrow>
     (case parseStorageEndpoints E globalMinioHost globalMinioPort disks of
        Inl err \<Rightarrow> Inl (Fatal err ''Unable to parse storage endpoints %s'')
      | Inr endpoints \<Rightarrow> checkEndpoints E serverAddr host portStr endpoints disks))"

section \<open>Order of the endpoints\<close>

text \<open>
  Modelled from the spec: the type \<^verbatim>\<open>byHostPath\<close> of line 392 is declared outside this
  file. By section 4.4 of the specification the endpoints are sorted by a total order on
  host and path, the host compared first and the path second; Go compares strings byte
  by byte.
\<close>

definition byHostPath_Less :: "URL \<Rightarrow> URL \<Rightarrow> bool" where
  "byHostPath_Less a b = (Host a < Host b \<or> (Host a = Host b \<and> Path a < Path b))"

section \<open>Starting the server\<close>

text \<open>\<^verbatim>\<open>getHostPort\<close> (lines 325-352), with the call of \<^verbatim>\<open>checkPortAvailability\<close> recorded.\<close>

definition getHostPort :: "env \<Rightarrow> string \<Rightarrow> event list \<times> (error + string \<times> string)" where
  "getHostPort E address =
     (case net_SplitHostPort address of
        Inl err \<Rightarrow> ([], Inl (NetAddrError err))
      | Inr (host, port) \<Rightarrow>
          if port = ''0'' \<or> port = [] then ([], Inl errEmptyPort)
          else case strconv_Atoi E port of
            Some err \<Rightarrow> ([], Inl err)
          | None \<Rightarrow>
              (case checkPortAvailability E port of
                 Some err \<Rightarrow> ([CheckPortAvailability port], Inl err)
               | None \<Rightarrow> ([CheckPortAvailability port], Inr (host, port))))"

text \<open>
  A step of the start-up is the calls it makes and, when it ends the process, how.
  \<open>runSteps\<close> runs steps in order up to the first that ends the process.
\<close>

type_synonym step = "event list \<times> exit option"

fun runSteps :: "step list \<Rightarrow> event list \<times> exit option" where
  "runSteps [] = ([], None)"
| "runSteps ((evs, stop) # rest) =
     (case stop of
        Some x \<Rightarrow> (evs, Some x)
      | None \<Rightarrow> (case runSteps rest of (later, r) \<Rightarrow> (evs @ later, r)))"

definition fatal :: "error option \<Rightarrow> string \<Rightarrow> exit option" where
  "fatal err msg = (case fatalIf err msg of Inl x \<Rightarrow> Some x | Inr _ \<Rightarrow> None)"

text \<open>\<^verbatim>\<open>initServerConfig\<close> (lines 133-158).\<close>

definition initServerConfig :: "env \<Rightarrow> step list" where
  "initServerConfig E =
     [([CreateCertsPath],
        fatal (createCertsPath E)
          (''Unable to create '' @ [CHR 0x22] @ ''certs'' @ [CHR 0x22] @ '' directory.'')),
      ([LoadRootCAs], None)] @
     (if envCredentials E then
        [([SaveServerConfig],
           fatal (serverConfig_Save E) ''Unable to save credentials in the disk.'')]
      else []) @
     [([SetMaxOpenFiles], None),
      ([SetMaxMemory], None)]"

text \<open>
  \<^verbatim>\<open>serverMain\<close> from line 394 on, with the sorted endpoints: the steps in the order of
  the source. \<^verbatim>\<open>endpoints[0]\<close> of line 404 panics on an empty slice. The listener of
  lines 448-454 runs in its own goroutine: its start is an event and what it returns
  is not followed. The run that ends with \<open>None\<close> waits on \<^verbatim>\<open>globalServiceDoneCh\<close>.
\<close>

definition serverInit :: "env \<Rightarrow> string \<Rightarrow> URL list \<Rightarrow> step list" where
  "serverInit E serverAddr endpoints =
     [([InitStorageDisks endpoints],
        fatal (initStorageDisks E endpoints) ''Unable to initialize storage disk(s).''),
      ([HouseKeeping], fatal (houseKeeping E) ''Unable to purge temporary files.'')] @
     initServerConfig E @
     [([], if endpoints = [] then Some (Panicked IndexOutOfRange) else None),
      ([ConfigureServerHandler serverAddr endpoints],
        fatal (configureServerHandler E serverAddr endpoints)
          ''Unable to configure one of server's RPC services.'')] @
     (if isDistributedSetup E endpoints then
        [([InitDsyncNodes endpoints],
           fatal (initDsyncNodes E endpoints) ''Unable to initialize distributed locking'')]
      else []) @
     [([InitNSLock (isDistributedSetup E endpoints)], None),
      ([NewServerMux serverAddr], None),
      ([GetLocalAddress], None),
      ([FinalizeAPIEndpoints],
        fatal (finalizeAPIEndpoints E) ''Unable to finalize API endpoints for %s''),
      ([InitGlobalS3Peers endpoints], None),
      ([InitGlobalAdminPeers endpoints], None),
      ([ListenAndServe (globalIsSSL E)], None),
      ([WaitForFormatDisks (isLocalStorage E (hd endpoints)) endpoints],
        case waitForFormatDisks E (isLocalStorage E (hd endpoints)) endpoints of
          None \<Rightarrow> Some WaitsForFormat
        | Some err \<Rightarrow> fatal err ''formatting storage disks failed''),
      ([NewObjectLayer], fatal (newObjectLayer E) ''intializing object layer failed''),
      ([SetGlobalObjectAPI], None),
      ([PrintStartupMessage], None)]"

text \<open>
  \<^verbatim>\<open>serverMain\<close> (lines 355-473): \<open>serverAddr\<close> is the flag \<^verbatim>\<open>--address\<close> and \<open>args\<close> are
  the arguments of the command. The globals \<^verbatim>\<open>globalMinioHost\<close> and \<^verbatim>\<open>globalMinioPort\<close>
  are what \<^verbatim>\<open>getHostPort\<close> returns. The result is the calls made and how the process
  ended, \<open>None\<close> when it serves.
\<close>

definition serverMain :: "env \<Rightarrow> string \<Rightarrow> string list \<Rightarrow> event list \<times> exit option" where
  "serverMain E serverAddr args =
     (if args = [] \<or> hd args = ''help'' then ([ShowCommandHelpAndExit], Some HelpAndExit)
      else case getHostPort E serverAddr of
        (evs, Inl err) \<Rightarrow>
          ([MinioInit, CheckUpdate] @ evs,
           Some (Fatal err ''Unable to extract host and port %s''))
      | (evs, Inr (globalMinioHost, globalMinioPort)) \<Rightarrow>
     (case checkServerSyntax E globalMinioHost globalMinioPort serverAddr args of
        Inl x \<Rightarrow> ([MinioInit, CheckUpdate] @ evs, Some x)
      | Inr _ \<Rightarrow>
     (case parseStorageEndpoints E globalMinioHost globalMinioPort args of
        Inl err \<Rightarrow>
          ([MinioInit, CheckUpdate] @ evs,
           Some (Fatal err ''Unable to parse storage endpoints %s''))
      | Inr endpoints \<Rightarrow>
          if \<not> isAnyEndpointLocal E endpoints then
            ([MinioInit, CheckUpdate] @ evs,
             Some (Fatal errInvalidArgument
               ''None of the disks passed as command line args are local to this server.''))
          else
            (case runSteps (serverInit E serverAddr (sort_Sort E byHostPath_Less endpoints)) of
               (later, r) \<Rightarrow> ([MinioInit, CheckUpdate] @ evs @ later, r)))))"

section \<open>Example command lines\<close>

text \<open>
  Concrete environments to run the definitions on. \<open>parseTable\<close> gives \<^verbatim>\<open>url.Parse\<close> by
  the table of the arguments of one command line, each with the URL Go parses it to.
  In \<open>exampleEnv\<close> the platform is Linux, the bounds are 4 and 16, an endpoint is local
  when its host is empty or one of \<open>localHosts\<close>, and every collaborator succeeds; no
  example has seven endpoints, so \<open>sort_longSlice\<close> is never called. \<open>windowsEnv\<close> is the
  same on Windows, with \<^verbatim>\<open>URL.String()\<close> given by a table as well.
\<close>

definition parseTable :: "(string \<times> URL) list \<Rightarrow> string \<Rightarrow> error + URL" where
  "parseTable tbl rawurl =
     (case map_of tbl rawurl of Some u \<Rightarrow> Inr u | None \<Rightarrow> Inl (External ''url.Parse''))"

text \<open>
  Modelled from the spec: \<^verbatim>\<open>checkDuplicateEndpoints\<close> of line 259 is declared outside this
  file. By section 4.2 of the specification duplicate endpoints anywhere in the set are
  a fatal error; here two endpoints are duplicates when all their fields are equal.
\<close>

definition noDuplicates :: "URL list \<Rightarrow> error option" where
  "noDuplicates eps = (if distinct eps then None else Some (External ''duplicate''))"

definition exampleEnv :: "(string \<times> URL) list \<Rightarrow> string list \<Rightarrow> bool \<Rightarrow> env" where
  "exampleEnv tbl localHosts ssl =
     \<lparr>GOOS = ''linux'', maxErasureBlocks = 16, minErasureBlocks = 4, globalIsSSL = ssl,
      url_Parse = parseTable tbl,
      url_String = (\<lambda>u. []),
      strconv_Atoi = (\<lambda>s. None),
      isLocalStorage = (\<lambda>u. Host u = [] \<or> Host u \<in> set localHosts),
      checkDuplicateEndpoints = noDuplicates,
      checkPortAvailability = (\<lambda>port. None),
      initStorageDisks = (\<lambda>eps. None),
      houseKeeping = None,
      createCertsPath = None,
      envCredentials = False,
      serverConfig_Save = None,
      configureServerHandler = (\<lambda>addr eps. None),
      initDsyncNodes = (\<lambda>eps. None),
      finalizeAPIEndpoints = None,
      waitForFormatDisks = (\<lambda>firstDisk eps. Some None),
      newObjectLayer = None,
      sort_longSlice = insertionSort\<rparr>"

definition windowsEnv :: "(URL \<times> string) list \<Rightarrow> env" where
  "windowsEnv rendered =
     (exampleEnv [] [] False)
       \<lparr>GOOS := ''windows'',
        url_String := (\<lambda>u. case map_of rendered u of Some s \<Rightarrow> s | None \<Rightarrow> [])\<rparr>"

definition localDisk :: "string \<Rightarrow> URL" where
  "localDisk p = \<lparr>Scheme = [], Opaque = [], Host = [], Path = p\<rparr>"

definition httpDisk :: "string \<Rightarrow> string \<Rightarrow> string \<Rightarrow> URL" where
  "httpDisk scheme host p = \<lparr>Scheme = scheme, Opaque = [], Host = host, Path = p\<rparr>"

text \<open>The command lines of the examples, each argument with its parsed URL.\<close>

definition httpsLocalDisks :: "(string \<times> URL) list" where
  "httpsLocalDisks =
     [(''https://localhost/d1'', httpDisk ''https'' ''localhost'' ''/d1''),
      (''https://localhost/d2'', httpDisk ''https'' ''localhost'' ''/d2''),
      (''https://localhost/d3'', httpDisk ''https'' ''localhost'' ''/d3''),
      (''https://localhost/d4'', httpDisk ''https'' ''localhost'' ''/d4'')]"

definition httpsRemoteDisks :: "(string \<times> URL) list" where
  "httpsRemoteDisks =
     [(''https://node1/d1'', httpDisk ''https'' ''node1'' ''/d1''),
      (''https://node2/d1'', httpDisk ''https'' ''node2'' ''/d1''),
      (''https://node3/d1'', httpDisk ''https'' ''node3'' ''/d1''),
      (''https://node4/d1'', httpDisk ''https'' ''node4'' ''/d1'')]"

definition twoNodeDisks :: "(string \<times> URL) list" where
  "twoNodeDisks =
     [(''http://node1:9000/d1'', httpDisk ''http'' ''node1:9000'' ''/d1''),
      (''http://node1:9000/d2'', httpDisk ''http'' ''node1:9000'' ''/d2''),
      (''http://node2:9000/d1'', httpDisk ''http'' ''node2:9000'' ''/d1''),
      (''http://node2:9000/d2'', httpDisk ''http'' ''node2:9000'' ''/d2'')]"


definition threeDisks :: "(string \<times> URL) list" where
  "threeDisks =
     [(''/d1'', localDisk ''/d1''), (''/d2'', localDisk ''/d2''), (''/d3'', localDisk ''/d3'')]"





section \<open>Properties of the parser\<close>

lemma parseStorageEndpoints_loop_append:
  "parseStorageEndpoints_loop E gh gp acc (pre @ rest) =
     (case parseStorageEndpoints_loop E gh gp acc pre of
        Inl err \<Rightarrow> Inl err
      | Inr us \<Rightarrow> parseStorageEndpoints_loop E gh gp us rest)"
  by (induction pre arbitrary: acc) (auto split: sum.splits)

lemma parseStorageEndpoints_loop_Inr:
  "parseStorageEndpoints_loop E gh gp acc eps = Inr us \<Longrightarrow>
   \<exists>vs. us = acc @ vs \<and> list_all2 (\<lambda>ep v. parseStorageEndpoint E gh gp ep = Inr v) eps vs"
proof (induction eps arbitrary: acc)
  case Nil
  then show ?case by simp
next
  case (Cons ep eps)
  from Cons.prems obtain u where u: "parseStorageEndpoint E gh gp ep = Inr u"
    and rest: "parseStorageEndpoints_loop E gh gp (acc @ [u]) eps = Inr us"
    by (auto split: sum.splits)
  from Cons.IH [OF rest] obtain vs where "us = (acc @ [u]) @ vs"
    and "list_all2 (\<lambda>ep v. parseStorageEndpoint E gh gp ep = Inr v) eps vs"
    by blast
  with u show ?case by (intro exI [of _ "u # vs"]) simp
qed

lemma parseStorageEndpoints_Inr:
  "parseStorageEndpoints E gh gp eps = Inr us \<Longrightarrow>
   list_all2 (\<lambda>ep v. parseStorageEndpoint E gh gp ep = Inr v) eps us"
  unfolding parseStorageEndpoints_def
  by (drule parseStorageEndpoints_loop_Inr) auto

lemma parseStorageEndpoints_snoc:
  "parseStorageEndpoints E gh gp pre = Inr us \<Longrightarrow>
   parseStorageEndpoints E gh gp (pre @ ep # post) =
     (case parseStorageEndpoint E gh gp ep of
        Inl err \<Rightarrow> Inl err
      | Inr u \<Rightarrow> parseStorageEndpoints_loop E gh gp (us @ [u]) post)"
  unfolding parseStorageEndpoints_def
  by (simp add: parseStorageEndpoints_loop_append)

lemma strings_HasPrefix_append: "strings_HasPrefix (p @ s) p"
  by (induction p) auto

lemma strings_Contains_append: "strings_Contains (a @ p @ b) p"
proof (induction a)
  case Nil
  show ?case
  proof (cases "p @ b")
    case Nil
    then show ?thesis by simp
  next
    case (Cons x xs)
    have "strings_HasPrefix (p @ b) p" by (rule strings_HasPrefix_append)
    with Cons show ?thesis by simp
  qed
next
  case (Cons x a)
  then show ?case by simp
qed

lemma missing_port_ignored:
  "net_SplitHostPort hostport = Inl (AddrError ''missing port in address'' addr) \<Longrightarrow>
   endpointPort hostport = Inr []"
proof -
  assume split: "net_SplitHostPort hostport = Inl (AddrError ''missing port in address'' addr)"
  have "strings_Contains (AddrError_Error (AddrError ''missing port in address'' addr))
          ''missing port in address''"
  proof (cases "addr = []")
    case True
    have "strings_Contains ([] @ ''missing port in address'' @ []) ''missing port in address''"
      by (rule strings_Contains_append)
    with True show ?thesis by (simp add: AddrError_Error_def)
  next
    case False
    have "strings_Contains ((''address '' @ addr @ '': '') @ ''missing port in address'' @ [])
            ''missing port in address''"
      by (rule strings_Contains_append)
    with False show ?thesis by (simp add: AddrError_Error_def)
  qed
  with split show ?thesis by (simp add: endpointPort_def)
qed

lemma IndexByte_None: "IndexByte s c = None \<longleftrightarrow> c \<notin> set s"
  by (induction s) auto

lemma endpointPort_no_colon: "CHR '':'' \<notin> set hostport \<Longrightarrow> endpointPort hostport = Inr []"
proof -
  assume "CHR '':'' \<notin> set hostport"
  then have "IndexByte (rev hostport) CHR '':'' = None"
    by (simp add: IndexByte_None)
  then have "net_SplitHostPort hostport = Inl (AddrError ''missing port in address'' hostport)"
    by (simp add: net_SplitHostPort_def LastIndexByte_def)
  then show ?thesis by (rule missing_port_ignored)
qed

lemmas split_host_port_eval =
  net_SplitHostPort_def LastIndexByte_def splitHostPortTail_def endpointPort_def
  AddrError_Error_def net_JoinHostPort_def

text \<open>
  C1 (as stated): once a global bind address with its own port has been fixed, an
  endpoint without a port is rejected. This is false on the code: line 110 tests the
  host of the bind address only. With \<^verbatim>\<open>--address :9001\<close> the function \<^verbatim>\<open>getHostPort\<close> fixes
  the port \<^verbatim>\<open>9001\<close> and an empty host, and the argument \<^verbatim>\<open>http://node1/d1\<close>, which has no
  port, is accepted and becomes the endpoint of host \<^verbatim>\<open>node1:9001\<close>.
\<close>

theorem parseStorageEndpoints_bind_port_only:
  "getHostPort
     (exampleEnv [(''http://node1/d1'', httpDisk ''http'' ''node1'' ''/d1'')] [] False) '':9001''
     = ([CheckPortAvailability ''9001''], Inr ([], ''9001''))
   \<and> endpointPort ''node1'' = Inr []
   \<and> parseStorageEndpoints
     (exampleEnv [(''http://node1/d1'', httpDisk ''http'' ''node1'' ''/d1'')] [] False)
     [] ''9001'' [''http://node1/d1'']
     = Inr [httpDisk ''http'' ''node1:9001'' ''/d1'']"
  by (simp add: getHostPort_def parseStorageEndpoints_def parseStorageEndpoint_def
      exampleEnv_def parseTable_def httpDisk_def split_host_port_eval)

text \<open>
  C1 (amended): the two rules turn on the host of the global bind address. For an
  argument with a non-empty host that the loop of \<^verbatim>\<open>parseStorageEndpoints\<close> reaches (the
  arguments \<open>pre\<close> before it were accepted) and whose port is \<open>port\<close> (empty when the
  host names none): with an empty global bind host, whether or not a bind port was
  given, a non-empty port is rejected with the error "port configurable using
  --address" and an empty port is accepted, the global port joined to the host; with
  a global bind host an empty port is rejected with the error "port mandatory" and a
  non-empty port is accepted. The two rejections exclude each other, since one needs
  an empty global host and the other a non-empty one.
\<close>

theorem parseStorageEndpoints_port_rules:
  assumes pre: "parseStorageEndpoints E gHost gPort pre = Inr us"
    and ep: "ep \<noteq> []" "url_Parse E ep = Inr u" "Host u \<noteq> []"
    and port: "endpointPort (Host u) = Inr port"
  shows "(gHost = [] \<and> port \<noteq> [] \<longrightarrow>
            parseStorageEndpoints E gHost gPort (pre @ ep # post) =
              Inl (Errorf (''Invalid Argument '' @ Host u @
                     '', port configurable using --address :<port>'')))
       \<and> (gHost \<noteq> [] \<and> port = [] \<longrightarrow>
            parseStorageEndpoints E gHost gPort (pre @ ep # post) =
              Inl (Errorf (''Invalid Argument '' @ Host u @
                     '', port mandatory when --address <host>:<port> is used'')))
       \<and> (gHost = [] \<and> port = [] \<longrightarrow>
            parseStorageEndpoints E gHost gPort (pre @ [ep]) =
              Inr (us @ [u\<lparr>Host := net_JoinHostPort (Host u) gPort\<rparr>]))
       \<and> (gHost \<noteq> [] \<and> port \<noteq> [] \<longrightarrow>
            parseStorageEndpoints E gHost gPort (pre @ [ep]) = Inr (us @ [u]))"
proof -
  have step: "parseStorageEndpoints E gHost gPort (pre @ ep # rest) =
      (case parseStorageEndpoint E gHost gPort ep of
         Inl err \<Rightarrow> Inl err
       | Inr v \<Rightarrow> parseStorageEndpoints_loop E gHost gPort (us @ [v]) rest)" for rest
    by (rule parseStorageEndpoints_snoc [OF pre])
  have body: "parseStorageEndpoint E gHost gPort ep =
      (if gHost = [] then
         if port \<noteq> [] then
           Inl (Errorf (''Invalid Argument '' @ Host u @
                  '', port configurable using --address :<port>''))
         else Inr (u\<lparr>Host := net_JoinHostPort (Host u) gPort\<rparr>)
       else
         if port = [] then
           Inl (Errorf (''Invalid Argument '' @ Host u @
                  '', port mandatory when --address <host>:<port> is used''))
         else Inr u)"
    using ep port by (simp add: parseStorageEndpoint_def)
  show ?thesis
    unfolding step body by (cases "gHost = []"; cases "port = []") simp_all
qed

theorem parseStorageEndpoints_port_rules_witness:
  "parseStorageEndpoints
     (exampleEnv [(''http://node1:9001/d1'', httpDisk ''http'' ''node1:9001'' ''/d1'')] [] False)
     [] ''9000'' [''http://node1:9001/d1'']
     = Inl (Errorf ''Invalid Argument node1:9001, port configurable using --address :<port>'')
   \<and> parseStorageEndpoints
     (exampleEnv [(''http://node1/d1'', httpDisk ''http'' ''node1'' ''/d1'')] [] False)
     ''node0'' ''9000'' [''http://node1/d1'']
     = Inl (Errorf
         ''Invalid Argument node1, port mandatory when --address <host>:<port> is used'')"
proof -
  let ?E1 = "exampleEnv [(''http://node1:9001/d1'', httpDisk ''http'' ''node1:9001'' ''/d1'')] [] False"
  let ?E2 = "exampleEnv [(''http://node1/d1'', httpDisk ''http'' ''node1'' ''/d1'')] [] False"
  have p1: "parseStorageEndpoints ?E1 [] ''9000'' [] = Inr []"
    and p2: "parseStorageEndpoints ?E2 ''node0'' ''9000'' [] = Inr []"
    by (simp_all add: parseStorageEndpoints_def)
  have u1: "url_Parse ?E1 ''http://node1:9001/d1'' = Inr (httpDisk ''http'' ''node1:9001'' ''/d1'')"
    and u2: "url_Parse ?E2 ''http://node1/d1'' = Inr (httpDisk ''http'' ''node1'' ''/d1'')"
    by (simp_all add: exampleEnv_def parseTable_def)
  have h1: "Host (httpDisk ''http'' ''node1:9001'' ''/d1'') \<noteq> []"
    and h2: "Host (httpDisk ''http'' ''node1'' ''/d1'') \<noteq> []"
    by (simp_all add: httpDisk_def)
  have e1: "endpointPort (Host (httpDisk ''http'' ''node1:9001'' ''/d1'')) = Inr ''9001''"
    and e2: "endpointPort (Host (httpDisk ''http'' ''node1'' ''/d1'')) = Inr []"
    by (simp_all add: httpDisk_def split_host_port_eval)
  have n1: "''http://node1:9001/d1'' \<noteq> []" and n2: "''http://node1/d1'' \<noteq> []"
    by simp_all
  from parseStorageEndpoints_port_rules [OF p1 n1 u1 h1 e1, of "[]"]
    parseStorageEndpoints_port_rules [OF p2 n2 u2 h2 e2, of "[]"]
  show ?thesis by (simp add: httpDisk_def)
qed

lemma net_JoinHostPort_suffix:
  "\<exists>x. (h \<noteq> [] \<longrightarrow> x \<noteq> []) \<and> net_JoinHostPort h p = x @ '':'' @ p"
proof (cases "IndexByte h CHR '':'' = None")
  case True
  then show ?thesis by (intro exI [of _ h]) (simp add: net_JoinHostPort_def)
next
  case False
  then show ?thesis by (intro exI [of _ "''['' @ h @ '']''"]) (simp add: net_JoinHostPort_def)
qed

lemma parseStorageEndpoint_no_bind_host:
  assumes "parseStorageEndpoint E [] gPort ep = Inr u'" and "Host u' \<noteq> []"
  shows "\<exists>u. url_Parse E ep = Inr u \<and> Host u \<noteq> [] \<and> endpointPort (Host u) = Inr []
           \<and> u' = u\<lparr>Host := net_JoinHostPort (Host u) gPort\<rparr>"
  using assms
  by (auto simp: parseStorageEndpoint_def split: if_splits sum.splits)

text \<open>
  C9: when \<^verbatim>\<open>parseStorageEndpoints\<close> succeeds with no global bind host, every returned
  endpoint with a non-empty host comes from an argument whose parsed host is not empty
  and names no port, and its host is that host joined with the global port by
  \<^verbatim>\<open>net.JoinHostPort\<close>: a non-empty host part, a colon and the global port.
\<close>

theorem parseStorageEndpoints_joins_port:
  assumes ok: "parseStorageEndpoints E [] gPort eps = Inr us"
    and u': "u' \<in> set us" "Host u' \<noteq> []"
  shows "\<exists>ep u x. ep \<in> set eps \<and> url_Parse E ep = Inr u \<and> Host u \<noteq> []
           \<and> endpointPort (Host u) = Inr []
           \<and> u' = u\<lparr>Host := net_JoinHostPort (Host u) gPort\<rparr>
           \<and> x \<noteq> [] \<and> Host u' = x @ '':'' @ gPort"
proof -
  have all: "list_all2 (\<lambda>ep v. parseStorageEndpoint E [] gPort ep = Inr v) eps us"
    by (rule parseStorageEndpoints_Inr [OF ok])
  from u'(1) obtain i where i: "i < length us" "us ! i = u'"
    by (auto simp: in_set_conv_nth)
  from all i have "eps ! i \<in> set eps" "parseStorageEndpoint E [] gPort (eps ! i) = Inr u'"
    by (auto simp: list_all2_conv_all_nth)
  then obtain ep where ep: "ep \<in> set eps" "parseStorageEndpoint E [] gPort ep = Inr u'"
    by blast
  from parseStorageEndpoint_no_bind_host [OF ep(2) u'(2)]
  obtain u where u: "url_Parse E ep = Inr u" "Host u \<noteq> []" "endpointPort (Host u) = Inr []"
    "u' = u\<lparr>Host := net_JoinHostPort (Host u) gPort\<rparr>"
    by blast
  from net_JoinHostPort_suffix [of "Host u" gPort] u(2)
  obtain x where "x \<noteq> []" "net_JoinHostPort (Host u) gPort = x @ '':'' @ gPort"
    by blast
  with ep(1) u show ?thesis by auto
qed

theorem parseStorageEndpoints_joins_port_witness:
  "parseStorageEndpoints
     (exampleEnv [(''http://node1/d1'', httpDisk ''http'' ''node1'' ''/d1''),
                  (''/d2'', localDisk ''/d2'')] [] False)
     [] ''9000'' [''http://node1/d1'', ''/d2'']
     = Inr [httpDisk ''http'' ''node1:9000'' ''/d1'', localDisk ''/d2'']
   \<and> (\<exists>ep u x. ep \<in> set [''http://node1/d1'', ''/d2'']
        \<and> url_Parse (exampleEnv [(''http://node1/d1'', httpDisk ''http'' ''node1'' ''/d1''),
                  (''/d2'', localDisk ''/d2'')] [] False) ep = Inr u
        \<and> Host u \<noteq> [] \<and> endpointPort (Host u) = Inr []
        \<and> httpDisk ''http'' ''node1:9000'' ''/d1'' = u\<lparr>Host := net_JoinHostPort (Host u) ''9000''\<rparr>
        \<and> x \<noteq> [] \<and> Host (httpDisk ''http'' ''node1:9000'' ''/d1'') = x @ '':'' @ ''9000'')"
proof -
  let ?E = "exampleEnv [(''http://node1/d1'', httpDisk ''http'' ''node1'' ''/d1''),
                  (''/d2'', localDisk ''/d2'')] [] False"
  have ok: "parseStorageEndpoints ?E [] ''9000'' [''http://node1/d1'', ''/d2'']
      = Inr [httpDisk ''http'' ''node1:9000'' ''/d1'', localDisk ''/d2'']"
    by (simp add: parseStorageEndpoints_def parseStorageEndpoint_def exampleEnv_def
        parseTable_def httpDisk_def localDisk_def split_host_port_eval)
  have mem: "httpDisk ''http'' ''node1:9000'' ''/d1''
      \<in> set [httpDisk ''http'' ''node1:9000'' ''/d1'', localDisk ''/d2'']"
    by simp
  have host: "Host (httpDisk ''http'' ''node1:9000'' ''/d1'') \<noteq> []"
    by (simp add: httpDisk_def)
  from ok parseStorageEndpoints_joins_port [OF ok mem host]
  show ?thesis by blast
qed

section \<open>Properties of the command line checks\<close>

lemma isDistributedSetup_iff:
  "isDistributedSetup E eps \<longleftrightarrow> (\<exists>ep\<in>set eps. \<not> isLocalStorage E ep)"
  by (induction eps) auto

lemma isAnyEndpointLocal_iff:
  "isAnyEndpointLocal E eps \<longleftrightarrow> (\<exists>ep\<in>set eps. isLocalStorage E ep)"
  by (induction eps) auto

lemma foundCnt_filter:
  "foundCnt serverAddr eps = int (length (filter (\<lambda>ep. Host ep = serverAddr) eps))"
  by (induction eps) auto

lemma checkCertificates_https:
  "\<exists>ep\<in>set eps. Scheme ep = ''https'' \<Longrightarrow> \<not> globalIsSSL E \<Longrightarrow>
   checkCertificates E eps =
     Inl (Fatal errInvalidArgument ''Certificates not provided for secure configuration'')"
  by (induction eps) (auto simp: fatalIf_def)

lemma checkCertificates_cases:
  "checkCertificates E eps = Inr () \<or>
   checkCertificates E eps =
     Inl (Fatal errInvalidArgument ''Certificates not provided for secure configuration'')"
  by (induction eps) (auto simp: fatalIf_def)

lemma checkBindAddress_cases:
  "checkBindAddress serverAddr host portStr eps = Inr () \<or>
   checkBindAddress serverAddr host portStr eps =
     Inl (Fatal errInvalidArgument ''Port missing, Host:Port should be specified for --address'') \<or>
   checkBindAddress serverAddr host portStr eps =
     Inl (Fatal errInvalidArgument ''%s is not available in %s'') \<or>
   checkBindAddress serverAddr host portStr eps =
     Inl (Fatal errInvalidArgument ''%s matches % entries in %s'')"
  by (simp add: checkBindAddress_def fatalIf_def)

lemma checkDistributed_cases:
  "checkDistributed E serverAddr host portStr eps = Inr () \<or>
   checkDistributed E serverAddr host portStr eps =
     Inl (Fatal errInvalidArgument ''Port missing, Host:Port should be specified for --address'') \<or>
   checkDistributed E serverAddr host portStr eps =
     Inl (Fatal errInvalidArgument ''%s is not available in %s'') \<or>
   checkDistributed E serverAddr host portStr eps =
     Inl (Fatal errInvalidArgument ''%s matches % entries in %s'') \<or>
   checkDistributed E serverAddr host portStr eps =
     Inl (Fatal errInvalidArgument ''Certificates not provided for secure configuration'')"
  using checkBindAddress_cases [of serverAddr host portStr eps] checkCertificates_cases [of E eps]
  by (auto simp: checkDistributed_def)

lemma checkServerSyntax_parsed:
  assumes "net_SplitHostPort serverAddr = Inr (host, portStr)"
    and "parseStorageEndpoints E gh gp disks = Inr endpoints"
  shows "checkServerSyntax E gh gp serverAddr disks =
           checkEndpoints E serverAddr host portStr endpoints disks"
  using assms by (simp add: checkServerSyntax_def)

lemma checkEndpoints_counted:
  assumes "checkEndpointsSyntax E endpoints disks = Inr None"
    and "checkDuplicateEndpoints E endpoints = None"
  shows "checkEndpoints E serverAddr host portStr endpoints disks =
           (case checkDiskCount E endpoints of
              Inl x \<Rightarrow> Inl x
            | Inr _ \<Rightarrow>
                if \<not> isDistributedSetup E endpoints then Inr ()
                else checkDistributed E serverAddr host portStr endpoints)"
  using assms by (simp add: checkEndpoints_def fatalIf_def)

lemma checkDiskCount_single:
  "checkDiskCount E [u] =
     (if Host u \<noteq> [] \<and> Scheme u \<noteq> [] then
        Inl (Fatal errInvalidArgument ''%s, FS setup expects a filesystem path'')
      else Inr ())"
  by (simp add: checkDiskCount_def fatalIf_def)

lemma checkServerSyntax_single:
  assumes "net_SplitHostPort serverAddr = Inr (host, portStr)"
    and "parseStorageEndpoints E gh gp disks = Inr [u]"
    and "checkEndpointsSyntax E [u] disks = Inr None"
    and "checkDuplicateEndpoints E [u] = None"
  shows "checkServerSyntax E gh gp serverAddr disks =
           (if Host u \<noteq> [] \<and> Scheme u \<noteq> [] then
              Inl (Fatal errInvalidArgument ''%s, FS setup expects a filesystem path'')
            else if isLocalStorage E u then Inr ()
            else checkDistributed E serverAddr host portStr [u])"
  by (simp add: checkServerSyntax_parsed [OF assms(1,2)] checkEndpoints_counted [OF assms(3,4)]
      checkDiskCount_single)

text \<open>
  C7: when the parser returns exactly one endpoint and the syntax and duplicate checks
  pass, \<^verbatim>\<open>checkServerSyntax\<close> takes the single-disk (FS) branch of lines 266-271: the
  check of the disk count is the FS test alone, whatever the bounds of the erasure
  code, so the run never ends with the fatal error of the number of disks; and it ends
  with the fatal error "FS setup expects a filesystem path" when the endpoint has both
  a host and a scheme.
\<close>

theorem checkServerSyntax_one_endpoint:
  assumes addr: "net_SplitHostPort serverAddr = Inr (host, portStr)"
    and parse: "parseStorageEndpoints E gh gp disks = Inr [u]"
    and syn: "checkEndpointsSyntax E [u] disks = Inr None"
    and dup: "checkDuplicateEndpoints E [u] = None"
  shows "(Host u \<noteq> [] \<and> Scheme u \<noteq> [] \<longrightarrow>
            checkServerSyntax E gh gp serverAddr disks =
              Inl (Fatal errInvalidArgument ''%s, FS setup expects a filesystem path''))
       \<and> checkDiskCount E [u] =
            (if Host u \<noteq> [] \<and> Scheme u \<noteq> [] then
               Inl (Fatal errInvalidArgument ''%s, FS setup expects a filesystem path'')
             else Inr ())
       \<and> (\<forall>err. checkServerSyntax E gh gp serverAddr disks \<noteq>
            Inl (Fatal err ''Invalid number of disks supplied.''))"
proof -
  note whole = checkServerSyntax_single [OF addr parse syn dup]
  have "checkServerSyntax E gh gp serverAddr disks \<noteq>
          Inl (Fatal err ''Invalid number of disks supplied.'')" for err
    using checkDistributed_cases [of E serverAddr host portStr "[u]"]
    unfolding whole by auto
  then show ?thesis
    by (simp add: whole checkDiskCount_single)
qed

text \<open>
  C10: under the same conditions the run ends with the fatal error "FS setup expects a
  filesystem path" exactly when the single endpoint has both a host and a scheme; an
  endpoint with only one of the two passes the check of lines 266-271, and when it is
  local the whole of \<^verbatim>\<open>checkServerSyntax\<close> passes.
\<close>

theorem checkServerSyntax_single_disk_rejection:
  assumes addr: "net_SplitHostPort serverAddr = Inr (host, portStr)"
    and parse: "parseStorageEndpoints E gh gp disks = Inr [u]"
    and syn: "checkEndpointsSyntax E [u] disks = Inr None"
    and dup: "checkDuplicateEndpoints E [u] = None"
  shows "(checkServerSyntax E gh gp serverAddr disks =
            Inl (Fatal errInvalidArgument ''%s, FS setup expects a filesystem path'')
          \<longleftrightarrow> Host u \<noteq> [] \<and> Scheme u \<noteq> [])
       \<and> ((Host u = []) \<noteq> (Scheme u = []) \<longrightarrow> checkDiskCount E [u] = Inr ())
       \<and> ((Host u = []) \<noteq> (Scheme u = []) \<and> isLocalStorage E u \<longrightarrow>
            checkServerSyntax E gh gp serverAddr disks = Inr ())"
proof -
  note whole = checkServerSyntax_single [OF addr parse syn dup]
  have "checkServerSyntax E gh gp serverAddr disks \<noteq>
          Inl (Fatal errInvalidArgument ''%s, FS setup expects a filesystem path'')"
    if "\<not> (Host u \<noteq> [] \<and> Scheme u \<noteq> [])"
    using that checkDistributed_cases [of E serverAddr host portStr "[u]"]
    unfolding whole by auto
  moreover have "checkServerSyntax E gh gp serverAddr disks =
          Inl (Fatal errInvalidArgument ''%s, FS setup expects a filesystem path'')"
    if "Host u \<noteq> [] \<and> Scheme u \<noteq> []"
    using that by (simp add: whole)
  ultimately show ?thesis
    by (auto simp: whole checkDiskCount_single)
qed

theorem checkServerSyntax_one_endpoint_witness:
  "checkServerSyntax
     (exampleEnv [(''http://node1/d1'', httpDisk ''http'' ''node1'' ''/d1'')] [] False)
     [] ''9000'' '':9000'' [''http://node1/d1'']
     = Inl (Fatal errInvalidArgument ''%s, FS setup expects a filesystem path'')
   \<and> checkDiskCount
     (exampleEnv [(''http://node1/d1'', httpDisk ''http'' ''node1'' ''/d1'')] [] False)
     [httpDisk ''http'' ''node1:9000'' ''/d1'']
     = Inl (Fatal errInvalidArgument ''%s, FS setup expects a filesystem path'')"
proof -
  let ?E = "exampleEnv [(''http://node1/d1'', httpDisk ''http'' ''node1'' ''/d1'')] [] False"
  let ?u = "httpDisk ''http'' ''node1:9000'' ''/d1''"
  have addr: "net_SplitHostPort '':9000'' = Inr ([], ''9000'')"
    by (simp add: split_host_port_eval)
  have parse: "parseStorageEndpoints ?E [] ''9000'' [''http://node1/d1''] = Inr [?u]"
    by (simp add: parseStorageEndpoints_def parseStorageEndpoint_def exampleEnv_def
        parseTable_def httpDisk_def split_host_port_eval)
  have syn: "checkEndpointsSyntax ?E [?u] [''http://node1/d1''] = Inr None"
    by (simp add: checkEndpointURL_def httpDisk_def path_Clean_def rootPath_def)
  have dup: "checkDuplicateEndpoints ?E [?u] = None"
    by (simp add: exampleEnv_def noDuplicates_def)
  have both: "Host ?u \<noteq> [] \<and> Scheme ?u \<noteq> []"
    by (simp add: httpDisk_def)
  from checkServerSyntax_one_endpoint [OF addr parse syn dup] both
  show ?thesis by simp
qed

theorem checkServerSyntax_single_disk_rejection_witness:
  "checkServerSyntax
     (exampleEnv [(''//node1/d1'', httpDisk [] ''node1'' ''/d1'')] [''node1:9000''] False)
     [] ''9000'' '':9000'' [''//node1/d1'']
     = Inr ()
   \<and> checkDiskCount
     (exampleEnv [(''//node1/d1'', httpDisk [] ''node1'' ''/d1'')] [''node1:9000''] False)
     [httpDisk [] ''node1:9000'' ''/d1'']
     = Inr ()"
proof -
  let ?E = "exampleEnv [(''//node1/d1'', httpDisk [] ''node1'' ''/d1'')] [''node1:9000''] False"
  let ?u = "httpDisk [] ''node1:9000'' ''/d1''"
  have addr: "net_SplitHostPort '':9000'' = Inr ([], ''9000'')"
    by (simp add: split_host_port_eval)
  have parse: "parseStorageEndpoints ?E [] ''9000'' [''//node1/d1''] = Inr [?u]"
    by (simp add: parseStorageEndpoints_def parseStorageEndpoint_def exampleEnv_def
        parseTable_def httpDisk_def split_host_port_eval)
  have syn: "checkEndpointsSyntax ?E [?u] [''//node1/d1''] = Inr None"
    by (simp add: checkEndpointURL_def httpDisk_def path_Clean_def rootPath_def)
  have dup: "checkDuplicateEndpoints ?E [?u] = None"
    by (simp add: exampleEnv_def noDuplicates_def)
  have one: "(Host ?u = []) \<noteq> (Scheme ?u = [])" and loc: "isLocalStorage ?E ?u"
    by (simp_all add: httpDisk_def exampleEnv_def)
  from checkServerSyntax_single_disk_rejection [OF addr parse syn dup] one loc
  show ?thesis by simp
qed

lemma checkServerSyntax_distributed:
  assumes "net_SplitHostPort serverAddr = Inr (host, portStr)"
    and "parseStorageEndpoints E gh gp disks = Inr endpoints"
    and "checkEndpointsSyntax E endpoints disks = Inr None"
    and "checkDuplicateEndpoints E endpoints = None"
    and "checkDiskCount E endpoints = Inr ()"
    and "isDistributedSetup E endpoints"
  shows "checkServerSyntax E gh gp serverAddr disks =
           checkDistributed E serverAddr host portStr endpoints"
  using assms(5,6)
  by (simp add: checkServerSyntax_parsed [OF assms(1,2)] checkEndpoints_counted [OF assms(3,4)])

lemma checkServerSyntax_Inr:
  assumes "checkServerSyntax E gh gp serverAddr disks = Inr ()"
  shows "\<exists>host portStr endpoints.
           net_SplitHostPort serverAddr = Inr (host, portStr) \<and>
           parseStorageEndpoints E gh gp disks = Inr endpoints \<and>
           checkEndpointsSyntax E endpoints disks = Inr None \<and>
           checkDuplicateEndpoints E endpoints = None \<and>
           checkDiskCount E endpoints = Inr () \<and>
           (isDistributedSetup E endpoints \<longrightarrow>
              checkDistributed E serverAddr host portStr endpoints = Inr ())"
  using assms
  by (auto simp: checkServerSyntax_def checkEndpoints_def fatalIf_def
      split: sum.splits option.splits if_splits)

lemma getHostPort_events:
  "getHostPort E address = (evs, r) \<Longrightarrow> set evs \<subseteq> range CheckPortAvailability"
  by (auto simp: getHostPort_def split: sum.splits option.splits if_splits)

lemma serverMain_checked:
  assumes "args \<noteq> []" and "hd args \<noteq> ''help''"
    and "getHostPort E serverAddr = (evs, Inr (gh, gp))"
    and "checkServerSyntax E gh gp serverAddr args = Inl x"
  shows "serverMain E serverAddr args = ([MinioInit, CheckUpdate] @ evs, Some x)"
  using assms by (simp add: serverMain_def)

lemma serverMain_none_local:
  assumes "args \<noteq> []" and "hd args \<noteq> ''help''"
    and "getHostPort E serverAddr = (evs, Inr (gh, gp))"
    and "checkServerSyntax E gh gp serverAddr args = Inr ()"
    and "parseStorageEndpoints E gh gp args = Inr endpoints"
    and "\<not> isAnyEndpointLocal E endpoints"
  shows "serverMain E serverAddr args =
           ([MinioInit, CheckUpdate] @ evs,
            Some (Fatal errInvalidArgument
              ''None of the disks passed as command line args are local to this server.''))"
  using assms by (simp add: serverMain_def)

lemma validation_events:
  assumes "set evs \<subseteq> range CheckPortAvailability"
  shows "InitStorageDisks eps \<notin> set ([MinioInit, CheckUpdate] @ evs)"
    and "ListenAndServe tls \<notin> set ([MinioInit, CheckUpdate] @ evs)"
  using assms by auto

text \<open>
  C4 (as stated): an endpoint list with an \<^verbatim>\<open>https\<close> endpoint and no certificates fails
  validation. This is false on the code: the certificate check of lines 301-306 comes
  after the return of lines 273-276, so four \<^verbatim>\<open>https\<close> endpoints on the local host pass
  \<^verbatim>\<open>checkServerSyntax\<close> without certificates, and \<^verbatim>\<open>serverMain\<close> goes on to start the
  listener without TLS.
\<close>

lemmas example_eval =
  exampleEnv_def parseTable_def noDuplicates_def httpDisk_def localDisk_def
  split_host_port_eval parseStorageEndpoints_def parseStorageEndpoint_def
  checkServerSyntax_def checkEndpoints_def checkEndpointURL_def path_Clean_def rootPath_def
  fatalIf_def checkDiskCount_def checkSufficientDisks_def isEven_def
  checkDistributed_def checkBindAddress_def

theorem checkServerSyntax_https_local:
  "checkServerSyntax (exampleEnv httpsLocalDisks [''localhost:9000''] False)
     [] ''9000'' '':9000'' (map fst httpsLocalDisks) = Inr ()
   \<and> parseStorageEndpoints (exampleEnv httpsLocalDisks [''localhost:9000''] False)
     [] ''9000'' (map fst httpsLocalDisks)
     = Inr [httpDisk ''https'' ''localhost:9000'' ''/d1'',
        httpDisk ''https'' ''localhost:9000'' ''/d2'',
        httpDisk ''https'' ''localhost:9000'' ''/d3'',
        httpDisk ''https'' ''localhost:9000'' ''/d4'']
   \<and> \<not> globalIsSSL (exampleEnv httpsLocalDisks [''localhost:9000''] False)
   \<and> snd (serverMain (exampleEnv httpsLocalDisks [''localhost:9000''] False)
        '':9000'' (map fst httpsLocalDisks)) = None
   \<and> ListenAndServe False \<in> set (fst (serverMain
        (exampleEnv httpsLocalDisks [''localhost:9000''] False)
        '':9000'' (map fst httpsLocalDisks)))"
proof -
  let ?E = "exampleEnv httpsLocalDisks [''localhost:9000''] False"
  let ?L = "[httpDisk ''https'' ''localhost:9000'' ''/d1'',
        httpDisk ''https'' ''localhost:9000'' ''/d2'',
        httpDisk ''https'' ''localhost:9000'' ''/d3'',
        httpDisk ''https'' ''localhost:9000'' ''/d4'']"
  have parse: "parseStorageEndpoints ?E [] ''9000'' (map fst httpsLocalDisks) = Inr ?L"
    by (simp add: httpsLocalDisks_def example_eval)
  have chk: "checkServerSyntax ?E [] ''9000'' '':9000'' (map fst httpsLocalDisks) = Inr ()"
    by (simp add: httpsLocalDisks_def example_eval)
  have ssl: "\<not> globalIsSSL ?E"
    by (simp add: exampleEnv_def)
  have hp: "getHostPort ?E '':9000'' = ([CheckPortAvailability ''9000''], Inr ([], ''9000''))"
    by (simp add: getHostPort_def exampleEnv_def split_host_port_eval)
  have srt: "sort_Sort ?E byHostPath_Less ?L = ?L"
    by (simp add: sort_Sort_def insertionSort_def byHostPath_Less_def httpDisk_def)
  have args: "map fst httpsLocalDisks \<noteq> []" "hd (map fst httpsLocalDisks) \<noteq> ''help''"
    by (simp_all add: httpsLocalDisks_def)
  have loc: "isAnyEndpointLocal ?E ?L"
    by (simp add: exampleEnv_def httpDisk_def)
  have "\<exists>t. runSteps (serverInit ?E '':9000'' ?L) = (t, None) \<and> ListenAndServe False \<in> set t"
    by (simp add: serverInit_def initServerConfig_def fatal_def fatalIf_def exampleEnv_def
        httpDisk_def)
  then obtain t where run: "runSteps (serverInit ?E '':9000'' ?L) = (t, None)"
    and listen: "ListenAndServe False \<in> set t"
    by blast
  have main: "serverMain ?E '':9000'' (map fst httpsLocalDisks) =
      ([MinioInit, CheckUpdate] @ [CheckPortAvailability ''9000''] @ t, None)"
    using args loc by (simp add: serverMain_def hp chk parse srt run)
  from listen parse chk ssl show ?thesis
    unfolding main by simp
qed

text \<open>
  C4 (amended): when the endpoints that the parser returns are a distributed setup
  (some endpoint is not local) and one of them has the scheme \<^verbatim>\<open>https\<close>, and no
  certificates are loaded, \<^verbatim>\<open>checkServerSyntax\<close> ends the process; the error is the one
  of the missing certificates when the checks before it pass; and \<^verbatim>\<open>serverMain\<close> ends
  without having started a listener.
\<close>

theorem checkServerSyntax_https_distributed:
  assumes parse: "parseStorageEndpoints E gh gp disks = Inr endpoints"
    and dist: "isDistributedSetup E endpoints"
    and https: "\<exists>ep\<in>set endpoints. Scheme ep = ''https''"
    and nossl: "\<not> globalIsSSL E"
  shows "(\<exists>x. checkServerSyntax E gh gp serverAddr disks = Inl x)
       \<and> (\<forall>host portStr.
            net_SplitHostPort serverAddr = Inr (host, portStr) \<and>
            checkEndpointsSyntax E endpoints disks = Inr None \<and>
            checkDuplicateEndpoints E endpoints = None \<and>
            checkDiskCount E endpoints = Inr () \<and>
            checkBindAddress serverAddr host portStr endpoints = Inr () \<longrightarrow>
            checkServerSyntax E gh gp serverAddr disks =
              Inl (Fatal errInvalidArgument
                ''Certificates not provided for secure configuration''))
       \<and> (\<forall>evs. getHostPort E serverAddr = (evs, Inr (gh, gp)) \<longrightarrow>
            snd (serverMain E serverAddr disks) \<noteq> None \<and>
            (\<forall>tls. ListenAndServe tls \<notin> set (fst (serverMain E serverAddr disks))))"
proof -
  note cert = checkCertificates_https [OF https nossl]
  have fails: "\<exists>x. checkServerSyntax E gh gp serverAddr disks = Inl x"
  proof (rule ccontr)
    assume "\<not> (\<exists>x. checkServerSyntax E gh gp serverAddr disks = Inl x)"
    then have "checkServerSyntax E gh gp serverAddr disks = Inr ()"
      by (cases "checkServerSyntax E gh gp serverAddr disks") auto
    from checkServerSyntax_Inr [OF this] parse dist
    obtain host portStr where "checkDistributed E serverAddr host portStr endpoints = Inr ()"
      by auto
    with cert show False
      by (simp add: checkDistributed_def split: sum.splits)
  qed
  have named: "checkServerSyntax E gh gp serverAddr disks =
      Inl (Fatal errInvalidArgument ''Certificates not provided for secure configuration'')"
    if "net_SplitHostPort serverAddr = Inr (host, portStr)"
      and "checkEndpointsSyntax E endpoints disks = Inr None"
      and "checkDuplicateEndpoints E endpoints = None"
      and "checkDiskCount E endpoints = Inr ()"
      and "checkBindAddress serverAddr host portStr endpoints = Inr ()"
    for host portStr
    using that(5) cert
    by (simp add: checkServerSyntax_distributed [OF that(1) parse that(2,3,4) dist]
        checkDistributed_def)
  have main: "snd (serverMain E serverAddr disks) \<noteq> None \<and>
      (\<forall>tls. ListenAndServe tls \<notin> set (fst (serverMain E serverAddr disks)))"
    if hp: "getHostPort E serverAddr = (evs, Inr (gh, gp))" for evs
  proof (cases "disks = [] \<or> hd disks = ''help''")
    case True
    then show ?thesis by (simp add: serverMain_def)
  next
    case False
    from fails obtain x where x: "checkServerSyntax E gh gp serverAddr disks = Inl x" ..
    from False have "disks \<noteq> []" "hd disks \<noteq> ''help''" by simp_all
    from serverMain_checked [OF this hp x] validation_events(2) [OF getHostPort_events [OF hp]]
    show ?thesis by simp
  qed
  from fails named main show ?thesis by blast
qed

theorem checkServerSyntax_https_distributed_witness:
  "checkServerSyntax (exampleEnv httpsRemoteDisks [''node1:9000''] False)
     [] ''9000'' '':9000'' (map fst httpsRemoteDisks)
     = Inl (Fatal errInvalidArgument ''Certificates not provided for secure configuration'')
   \<and> snd (serverMain (exampleEnv httpsRemoteDisks [''node1:9000''] False)
        '':9000'' (map fst httpsRemoteDisks)) \<noteq> None
   \<and> ListenAndServe False \<notin> set (fst (serverMain
        (exampleEnv httpsRemoteDisks [''node1:9000''] False)
        '':9000'' (map fst httpsRemoteDisks)))"
proof -
  let ?E = "exampleEnv httpsRemoteDisks [''node1:9000''] False"
  let ?L = "[httpDisk ''https'' ''node1:9000'' ''/d1'',
             httpDisk ''https'' ''node2:9000'' ''/d1'',
             httpDisk ''https'' ''node3:9000'' ''/d1'',
             httpDisk ''https'' ''node4:9000'' ''/d1'']"
  have parse: "parseStorageEndpoints ?E [] ''9000'' (map fst httpsRemoteDisks) = Inr ?L"
    by (simp add: httpsRemoteDisks_def example_eval)
  have dist: "isDistributedSetup ?E ?L"
    by (simp add: exampleEnv_def httpDisk_def)
  have https: "\<exists>ep\<in>set ?L. Scheme ep = ''https''"
    by (simp add: httpDisk_def)
  have nossl: "\<not> globalIsSSL ?E"
    by (simp add: exampleEnv_def)
  have addr: "net_SplitHostPort '':9000'' = Inr ([], ''9000'')"
    by (simp add: split_host_port_eval)
  have syn: "checkEndpointsSyntax ?E ?L (map fst httpsRemoteDisks) = Inr None"
    by (simp add: checkEndpointURL_def httpDisk_def path_Clean_def rootPath_def)
  have dup: "checkDuplicateEndpoints ?E ?L = None"
    by (simp add: exampleEnv_def noDuplicates_def httpDisk_def)
  have cnt: "checkDiskCount ?E ?L = Inr ()"
    by (simp add: checkDiskCount_def checkSufficientDisks_def isEven_def fatalIf_def
        exampleEnv_def)
  have bind: "checkBindAddress '':9000'' [] ''9000'' ?L = Inr ()"
    by (simp add: checkBindAddress_def)
  have hp: "getHostPort ?E '':9000'' = ([CheckPortAvailability ''9000''], Inr ([], ''9000''))"
    by (simp add: getHostPort_def exampleEnv_def split_host_port_eval)
  from checkServerSyntax_https_distributed [OF parse dist https nossl, of "'':9000''"]
    addr syn dup cnt bind hp
  show ?thesis by blast
qed

text \<open>
  C6 (as stated): with a bind address that has a host, validation fails unless exactly
  one endpoint's host equals the bind address. This is false on the code: the count of
  lines 285-298 is made only for a distributed setup, so the second example of the
  usage text, \<^verbatim>\<open>--address 192.168.1.101:9000 /home/shared\<close>, passes with no match.
\<close>

theorem checkServerSyntax_bind_address_local:
  "checkServerSyntax (exampleEnv [(''/home/shared'', localDisk ''/home/shared'')] [] False)
     ''192.168.1.101'' ''9000'' ''192.168.1.101:9000'' [''/home/shared''] = Inr ()
   \<and> net_SplitHostPort ''192.168.1.101:9000'' = Inr (''192.168.1.101'', ''9000'')
   \<and> parseStorageEndpoints
        (exampleEnv [(''/home/shared'', localDisk ''/home/shared'')] [] False)
        ''192.168.1.101'' ''9000'' [''/home/shared''] = Inr [localDisk ''/home/shared'']
   \<and> foundCnt ''192.168.1.101:9000'' [localDisk ''/home/shared''] = 0"
  by (simp add: example_eval)

text \<open>
  C6 (amended): when the bind address has a host and the endpoints that the parser
  returns are a distributed setup, \<^verbatim>\<open>checkServerSyntax\<close> passes only if exactly one
  endpoint has a host equal to the bind address as a string; when the checks before it
  pass and the bind address has a port, no match ends the process with the error "is
  not available in" and more than one match with the error "matches ... entries in",
  two different messages.
\<close>

theorem checkServerSyntax_bind_address:
  assumes addr: "net_SplitHostPort serverAddr = Inr (host, portStr)" and host: "host \<noteq> []"
    and parse: "parseStorageEndpoints E gh gp disks = Inr endpoints"
    and dist: "isDistributedSetup E endpoints"
  shows "(checkServerSyntax E gh gp serverAddr disks = Inr () \<longrightarrow>
            length (filter (\<lambda>ep. Host ep = serverAddr) endpoints) = 1)
       \<and> (checkEndpointsSyntax E endpoints disks = Inr None \<and>
          checkDuplicateEndpoints E endpoints = None \<and>
          checkDiskCount E endpoints = Inr () \<and> portStr \<noteq> [] \<and>
          length (filter (\<lambda>ep. Host ep = serverAddr) endpoints) = 0 \<longrightarrow>
            checkServerSyntax E gh gp serverAddr disks =
              Inl (Fatal errInvalidArgument ''%s is not available in %s''))
       \<and> (checkEndpointsSyntax E endpoints disks = Inr None \<and>
          checkDuplicateEndpoints E endpoints = None \<and>
          checkDiskCount E endpoints = Inr () \<and> portStr \<noteq> [] \<and>
          length (filter (\<lambda>ep. Host ep = serverAddr) endpoints) > 1 \<longrightarrow>
            checkServerSyntax E gh gp serverAddr disks =
              Inl (Fatal errInvalidArgument ''%s matches % entries in %s''))
       \<and> Fatal errInvalidArgument ''%s is not available in %s'' \<noteq>
          Fatal errInvalidArgument ''%s matches % entries in %s''"
proof -
  have one: "length (filter (\<lambda>ep. Host ep = serverAddr) endpoints) = 1"
    if ok: "checkServerSyntax E gh gp serverAddr disks = Inr ()"
  proof -
    from checkServerSyntax_Inr [OF ok] addr parse dist
    have "checkDistributed E serverAddr host portStr endpoints = Inr ()"
      by auto
    then have "checkBindAddress serverAddr host portStr endpoints = Inr ()"
      by (simp add: checkDistributed_def split: sum.splits)
    with host have "length (filter (\<lambda>ep. Host ep = serverAddr) endpoints) \<noteq> 0"
      and "\<not> length (filter (\<lambda>ep. Host ep = serverAddr) endpoints) > 1"
      by (simp_all add: checkBindAddress_def fatalIf_def foundCnt_filter split: if_splits)
    then show ?thesis by linarith
  qed
  have whole: "checkServerSyntax E gh gp serverAddr disks =
      checkDistributed E serverAddr host portStr endpoints"
    if "checkEndpointsSyntax E endpoints disks = Inr None"
      and "checkDuplicateEndpoints E endpoints = None"
      and "checkDiskCount E endpoints = Inr ()"
    by (rule checkServerSyntax_distributed [OF addr parse that dist])
  have none: "checkDistributed E serverAddr host portStr endpoints =
      Inl (Fatal errInvalidArgument ''%s is not available in %s'')"
    if "portStr \<noteq> []" "length (filter (\<lambda>ep. Host ep = serverAddr) endpoints) = 0"
    using that host
    by (simp add: checkDistributed_def checkBindAddress_def fatalIf_def foundCnt_filter)
  have many: "checkDistributed E serverAddr host portStr endpoints =
      Inl (Fatal errInvalidArgument ''%s matches % entries in %s'')"
    if "portStr \<noteq> []" "length (filter (\<lambda>ep. Host ep = serverAddr) endpoints) > 1"
    using that host
    by (auto simp: checkDistributed_def checkBindAddress_def fatalIf_def foundCnt_filter)
  have differ: "Fatal errInvalidArgument ''%s is not available in %s'' \<noteq>
      Fatal errInvalidArgument ''%s matches % entries in %s''"
    by simp
  from one whole none many differ show ?thesis
    by presburger
qed

theorem checkServerSyntax_bind_address_witness:
  "checkServerSyntax (exampleEnv twoNodeDisks [''node1:9000''] False)
     ''node1'' ''9000'' ''node1:9000'' (map fst twoNodeDisks)
     = Inl (Fatal errInvalidArgument ''%s matches % entries in %s'')
   \<and> checkServerSyntax (exampleEnv twoNodeDisks [''node3:9000''] False)
     ''node3'' ''9000'' ''node3:9000'' (map fst twoNodeDisks)
     = Inl (Fatal errInvalidArgument ''%s is not available in %s'')"
proof -
  let ?E1 = "exampleEnv twoNodeDisks [''node1:9000''] False"
  let ?E3 = "exampleEnv twoNodeDisks [''node3:9000''] False"
  let ?L = "map snd twoNodeDisks"
  have addr1: "net_SplitHostPort ''node1:9000'' = Inr (''node1'', ''9000'')"
    and addr3: "net_SplitHostPort ''node3:9000'' = Inr (''node3'', ''9000'')"
    by (simp_all add: split_host_port_eval)
  have parse1: "parseStorageEndpoints ?E1 ''node1'' ''9000'' (map fst twoNodeDisks) = Inr ?L"
    and parse3: "parseStorageEndpoints ?E3 ''node3'' ''9000'' (map fst twoNodeDisks) = Inr ?L"
    by (simp_all add: twoNodeDisks_def example_eval)
  have dist1: "isDistributedSetup ?E1 ?L" and dist3: "isDistributedSetup ?E3 ?L"
    by (simp_all add: twoNodeDisks_def exampleEnv_def httpDisk_def)
  have syn1: "checkEndpointsSyntax ?E1 ?L (map fst twoNodeDisks) = Inr None"
    and syn3: "checkEndpointsSyntax ?E3 ?L (map fst twoNodeDisks) = Inr None"
    by (simp_all add: twoNodeDisks_def checkEndpointURL_def httpDisk_def path_Clean_def
        rootPath_def)
  have dup1: "checkDuplicateEndpoints ?E1 ?L = None"
    and dup3: "checkDuplicateEndpoints ?E3 ?L = None"
    by (simp_all add: twoNodeDisks_def exampleEnv_def noDuplicates_def httpDisk_def)
  have cnt1: "checkDiskCount ?E1 ?L = Inr ()" and cnt3: "checkDiskCount ?E3 ?L = Inr ()"
    by (simp_all add: twoNodeDisks_def checkDiskCount_def checkSufficientDisks_def isEven_def
        fatalIf_def exampleEnv_def)
  have many: "length (filter (\<lambda>ep. Host ep = ''node1:9000'') ?L) > 1"
    and none: "length (filter (\<lambda>ep. Host ep = ''node3:9000'') ?L) = 0"
    by (simp_all add: twoNodeDisks_def httpDisk_def)
  have h1: "''node1'' \<noteq> []" and h3: "''node3'' \<noteq> []" and p: "''9000'' \<noteq> []"
    by simp_all
  from checkServerSyntax_bind_address [OF addr1 h1 parse1 dist1] syn1 dup1 cnt1 p many
    checkServerSyntax_bind_address [OF addr3 h3 parse3 dist3] syn3 dup3 cnt3 p none
  show ?thesis by blast
qed

section \<open>Properties of the disk count\<close>

text \<open>
  C3 (as stated): every endpoint list of odd size \<open>N > 1\<close> fails with \<^verbatim>\<open>errXLNumDisks\<close>.
  This is false on the code: \<^verbatim>\<open>checkSufficientDisks\<close> tests the two bounds first, so
  three disks end the process with \<^verbatim>\<open>errXLMinDisks\<close> when the minimum is 4.
\<close>

theorem checkDiskCount_three_disks:
  "odd (length [localDisk ''/d1'', localDisk ''/d2'', localDisk ''/d3'']) \<and>
   1 < length [localDisk ''/d1'', localDisk ''/d2'', localDisk ''/d3''] \<and>
   checkSufficientDisks 16 4 [localDisk ''/d1'', localDisk ''/d2'', localDisk ''/d3'']
     = Some errXLMinDisks \<and>
   checkDiskCount (exampleEnv threeDisks [] False)
       [localDisk ''/d1'', localDisk ''/d2'', localDisk ''/d3'']
     = Inl (Fatal errXLMinDisks ''Invalid number of disks supplied.'') \<and>
   checkDiskCount (exampleEnv threeDisks [] False)
       [localDisk ''/d1'', localDisk ''/d2'', localDisk ''/d3'']
     \<noteq> Inl (Fatal errXLNumDisks ''Invalid number of disks supplied.'') \<and>
   parseStorageEndpoints (exampleEnv threeDisks [] False) [] ''9000'' (map fst threeDisks)
     = Inr [localDisk ''/d1'', localDisk ''/d2'', localDisk ''/d3''] \<and>
   checkServerSyntax (exampleEnv threeDisks [] False) [] ''9000'' '':9000'' (map fst threeDisks)
     = Inl (Fatal errXLMinDisks ''Invalid number of disks supplied.'')"
  by (simp add: threeDisks_def example_eval)

text \<open>
  C3 (amended): for every endpoint list of odd size \<open>N > 1\<close> the validation of the disk
  count (lines 262-265) fails and no count is rounded: with \<^verbatim>\<open>errXLMaxDisks\<close> when
  \<open>N\<close> is above the maximum, else with \<^verbatim>\<open>errXLMinDisks\<close> when it is below the minimum,
  and with \<^verbatim>\<open>errXLNumDisks\<close> exactly when \<open>N\<close> lies within the two bounds; this is the
  fatal error "Invalid number of disks supplied." of \<^verbatim>\<open>checkServerSyntax\<close> whenever the
  checks before the count pass; the three errors are distinct values.
\<close>

theorem checkDiskCount_odd:
  assumes odd: "odd (length eps)" and many: "1 < length eps"
  shows "checkSufficientDisks (maxErasureBlocks E) (minErasureBlocks E) eps =
           Some (if int (length eps) > maxErasureBlocks E then errXLMaxDisks
                 else if int (length eps) < minErasureBlocks E then errXLMinDisks
                 else errXLNumDisks)
       \<and> checkDiskCount E eps =
           Inl (Fatal (if int (length eps) > maxErasureBlocks E then errXLMaxDisks
                       else if int (length eps) < minErasureBlocks E then errXLMinDisks
                       else errXLNumDisks)
                  ''Invalid number of disks supplied.'')
       \<and> (\<forall>gh gp serverAddr host portStr disks.
            net_SplitHostPort serverAddr = Inr (host, portStr) \<and>
            parseStorageEndpoints E gh gp disks = Inr eps \<and>
            checkEndpointsSyntax E eps disks = Inr None \<and>
            checkDuplicateEndpoints E eps = None \<longrightarrow>
            checkServerSyntax E gh gp serverAddr disks =
              Inl (Fatal (if int (length eps) > maxErasureBlocks E then errXLMaxDisks
                          else if int (length eps) < minErasureBlocks E then errXLMinDisks
                          else errXLNumDisks)
                     ''Invalid number of disks supplied.''))
       \<and> errXLNumDisks \<noteq> errXLMinDisks \<and> errXLNumDisks \<noteq> errXLMaxDisks
       \<and> errXLMinDisks \<noteq> errXLMaxDisks"
proof -
  let ?err = "if int (length eps) > maxErasureBlocks E then errXLMaxDisks
              else if int (length eps) < minErasureBlocks E then errXLMinDisks
              else errXLNumDisks"
  from odd have "\<not> isEven (int (length eps))"
    unfolding isEven_def by presburger
  then have helper:
    "checkSufficientDisks (maxErasureBlocks E) (minErasureBlocks E) eps = Some ?err"
    by (simp add: checkSufficientDisks_def Let_def)
  with many have count:
    "checkDiskCount E eps = Inl (Fatal ?err ''Invalid number of disks supplied.'')"
    by (simp add: checkDiskCount_def fatalIf_def)
  have whole: "checkServerSyntax E gh gp serverAddr disks =
      Inl (Fatal ?err ''Invalid number of disks supplied.'')"
    if "net_SplitHostPort serverAddr = Inr (host, portStr)"
      and "parseStorageEndpoints E gh gp disks = Inr eps"
      and "checkEndpointsSyntax E eps disks = Inr None"
      and "checkDuplicateEndpoints E eps = None"
    for gh gp serverAddr host portStr disks
    by (simp add: checkServerSyntax_parsed [OF that(1,2)] checkEndpoints_counted [OF that(3,4)]
        count)
  from helper count whole show ?thesis by blast
qed

theorem checkDiskCount_odd_witness:
  "checkDiskCount (exampleEnv [] [] False)
     [localDisk ''/d1'', localDisk ''/d2'', localDisk ''/d3'', localDisk ''/d4'',
      localDisk ''/d5'', localDisk ''/d6'', localDisk ''/d7'', localDisk ''/d8'',
      localDisk ''/d9'']
     = Inl (Fatal errXLNumDisks ''Invalid number of disks supplied.'')"
proof -
  let ?nine = "[localDisk ''/d1'', localDisk ''/d2'', localDisk ''/d3'', localDisk ''/d4'',
      localDisk ''/d5'', localDisk ''/d6'', localDisk ''/d7'', localDisk ''/d8'',
      localDisk ''/d9'']"
  have odd: "odd (length ?nine)" and many: "1 < length ?nine"
    by simp_all
  from checkDiskCount_odd [OF odd many, of "exampleEnv [] [] False"]
  show ?thesis by (simp add: exampleEnv_def)
qed

section \<open>Properties of the start-up\<close>

text \<open>
  C5: when \<^verbatim>\<open>getHostPort\<close> has fixed the global host and port and no endpoint that the
  parser returns for them is local, \<^verbatim>\<open>serverMain\<close> ends the process before line 394:
  with the help exit when there is no argument or the first is \<^verbatim>\<open>help\<close>, with the
  fatal error of \<^verbatim>\<open>checkServerSyntax\<close> when that fails, and otherwise with
  \<^verbatim>\<open>errInvalidArgument\<close> and the message "None of the disks passed as command line
  args are local to this server."; in each case no storage disk has been initialized
  and no listener has been started.
\<close>

theorem serverMain_no_local_endpoint:
  assumes hp: "getHostPort E serverAddr = (evs, Inr (gh, gp))"
    and parse: "parseStorageEndpoints E gh gp args = Inr endpoints"
    and nolocal: "\<forall>ep\<in>set endpoints. \<not> isLocalStorage E ep"
  shows "serverMain E serverAddr args =
           (if args = [] \<or> hd args = ''help'' then ([ShowCommandHelpAndExit], Some HelpAndExit)
            else case checkServerSyntax E gh gp serverAddr args of
              Inl x \<Rightarrow> ([MinioInit, CheckUpdate] @ evs, Some x)
            | Inr _ \<Rightarrow>
                ([MinioInit, CheckUpdate] @ evs,
                 Some (Fatal errInvalidArgument
                   ''None of the disks passed as command line args are local to this server.'')))
       \<and> snd (serverMain E serverAddr args) \<noteq> None
       \<and> (\<forall>eps. InitStorageDisks eps \<notin> set (fst (serverMain E serverAddr args)))
       \<and> (\<forall>tls. ListenAndServe tls \<notin> set (fst (serverMain E serverAddr args)))"
proof -
  from nolocal have none: "\<not> isAnyEndpointLocal E endpoints"
    by (simp add: isAnyEndpointLocal_iff)
  note evs = validation_events [OF getHostPort_events [OF hp]]
  show ?thesis
  proof (cases "args = [] \<or> hd args = ''help''")
    case True
    then show ?thesis by (simp add: serverMain_def)
  next
    case False
    then have args: "args \<noteq> []" "hd args \<noteq> ''help''" by simp_all
    show ?thesis
    proof (cases "checkServerSyntax E gh gp serverAddr args")
      case (Inl x)
      from serverMain_checked [OF args hp Inl] Inl False evs show ?thesis by simp
    next
      case (Inr v)
      then have ok: "checkServerSyntax E gh gp serverAddr args = Inr ()" by simp
      from serverMain_none_local [OF args hp ok parse none] Inr False evs show ?thesis by simp
    qed
  qed
qed

theorem serverMain_no_local_endpoint_witness:
  "serverMain (exampleEnv httpsRemoteDisks [] True) '':9000'' (map fst httpsRemoteDisks) =
     ([MinioInit, CheckUpdate, CheckPortAvailability ''9000''],
      Some (Fatal errInvalidArgument
        ''None of the disks passed as command line args are local to this server.''))"
proof -
  let ?E = "exampleEnv httpsRemoteDisks [] True"
  let ?L = "[httpDisk ''https'' ''node1:9000'' ''/d1'',
             httpDisk ''https'' ''node2:9000'' ''/d1'',
             httpDisk ''https'' ''node3:9000'' ''/d1'',
             httpDisk ''https'' ''node4:9000'' ''/d1'']"
  have hp: "getHostPort ?E '':9000'' = ([CheckPortAvailability ''9000''], Inr ([], ''9000''))"
    by (simp add: getHostPort_def exampleEnv_def split_host_port_eval)
  have parse: "parseStorageEndpoints ?E [] ''9000'' (map fst httpsRemoteDisks) = Inr ?L"
    by (simp add: httpsRemoteDisks_def example_eval)
  have nolocal: "\<forall>ep\<in>set ?L. \<not> isLocalStorage ?E ep"
    by (simp add: exampleEnv_def httpDisk_def)
  have chk: "checkServerSyntax ?E [] ''9000'' '':9000'' (map fst httpsRemoteDisks) = Inr ()"
    by (simp add: httpsRemoteDisks_def example_eval)
  have args: "\<not> (map fst httpsRemoteDisks = [] \<or> hd (map fst httpsRemoteDisks) = ''help'')"
    by (simp add: httpsRemoteDisks_def)
  from serverMain_no_local_endpoint [OF hp parse nolocal] chk args
  show ?thesis by simp
qed

section \<open>Properties of the endpoint syntax\<close>

text \<open>
  What \<^verbatim>\<open>checkEndpointURL\<close> returns wherever the Windows branch of lines 212-226 is not
  taken: it succeeds exactly when the scheme is empty, \<^verbatim>\<open>http\<close> or \<^verbatim>\<open>https\<close> and the
  cleaned path is not empty, \<^verbatim>\<open>.\<close>, \<^verbatim>\<open>/\<close> or a backslash; such a path gives the error
  "Empty or root path is not allowed" and any other scheme the error "Invalid scheme".
\<close>

lemma checkEndpointURL_no_drive:
  assumes "GOOS E \<noteq> ''windows'' \<or>
           \<not> (length (Scheme u) = 1 \<and> CHR ''a'' \<le> hd (Scheme u) \<and> hd (Scheme u) \<le> CHR ''z'')"
  shows "(checkEndpointURL E u = Inr None \<longleftrightarrow>
            (Scheme u = [] \<or> Scheme u = ''http'' \<or> Scheme u = ''https'') \<and>
            \<not> rootPath (path_Clean (Path u)))
       \<and> ((Scheme u = [] \<or> Scheme u = ''http'' \<or> Scheme u = ''https'') \<and>
          rootPath (path_Clean (Path u)) \<longrightarrow>
            checkEndpointURL E u = Inr (Some (Errorf ''Empty or root path is not allowed'')))
       \<and> (\<not> (Scheme u = [] \<or> Scheme u = ''http'' \<or> Scheme u = ''https'') \<longrightarrow>
            checkEndpointURL E u = Inr (Some (Errorf ''Invalid scheme'')))"
  using assms by (auto simp: checkEndpointURL_def Let_def)

text \<open>
  On Windows, for a scheme of one letter from \<^verbatim>\<open>a\<close> to \<^verbatim>\<open>z\<close>: when the cleaned
  \<^verbatim>\<open>endpointURL.String()\<close> still has a colon, the path tested is what follows the first
  colon; when it has none, the index of line 219 is out of range.
\<close>

lemma checkEndpointURL_windows_drive:
  assumes "GOOS E = ''windows''" and "length (Scheme u) = 1"
    and "CHR ''a'' \<le> hd (Scheme u)" and "hd (Scheme u) \<le> CHR ''z''"
  shows "checkEndpointURL E u =
           (case IndexByte (path_Clean (url_String E u)) CHR '':'' of
              None \<Rightarrow> Inl IndexOutOfRange
            | Some i \<Rightarrow>
                if rootPath (drop (i + 1) (path_Clean (url_String E u)))
                then Inr (Some (Errorf ''Empty or root path is not allowed''))
                else Inr None)"
proof -
  from assms(2) have "Scheme u \<noteq> []" "Scheme u \<noteq> ''http''" "Scheme u \<noteq> ''https''"
    by auto
  with assms show ?thesis
    by (simp add: checkEndpointURL_def strings_SplitN2_def split: option.splits)
qed

text \<open>
  C8: on Windows the argument \<^verbatim>\<open>c:/../x\<close> parses to the scheme \<^verbatim>\<open>c\<close> and the path
  \<^verbatim>\<open>/../x\<close>, and \<^verbatim>\<open>String()\<close> renders it as \<^verbatim>\<open>c:///../x\<close> (or \<^verbatim>\<open>c:/../x\<close>, by the version
  of Go). \<^verbatim>\<open>path.Clean\<close> removes the element \<^verbatim>\<open>c:\<close> with the \<^verbatim>\<open>..\<close> that follows it, the
  split at the colon gives one part, and \<^verbatim>\<open>checkEndpointURL\<close> panics at the index
  \<^verbatim>\<open>[1]\<close> of line 219: it neither succeeds nor returns one of its two errors.
\<close>

theorem checkEndpointURL_drive_panics:
  "checkEndpointURL
     (windowsEnv [(\<lparr>Scheme = ''c'', Opaque = [], Host = [], Path = ''/../x''\<rparr>, ''c:///../x'')])
     \<lparr>Scheme = ''c'', Opaque = [], Host = [], Path = ''/../x''\<rparr> = Inl IndexOutOfRange
   \<and> checkEndpointURL
     (windowsEnv [(\<lparr>Scheme = ''c'', Opaque = [], Host = [], Path = ''/../x''\<rparr>, ''c:/../x'')])
     \<lparr>Scheme = ''c'', Opaque = [], Host = [], Path = ''/../x''\<rparr> = Inl IndexOutOfRange
   \<and> path_Clean ''c:///../x'' = ''x'' \<and> path_Clean ''c:/../x'' = ''x''
   \<and> path_Clean ''/../x'' = ''/x''"
  by (simp add: checkEndpointURL_def windowsEnv_def exampleEnv_def path_Clean_def
      strings_SplitN2_def)

section \<open>Properties of the order of the endpoints\<close>

lemma byHostPath_Less_key:
  "byHostPath_Less a b \<longleftrightarrow> (Host a, Path a) < (Host b, Path b)"
  by (auto simp: byHostPath_Less_def less_prod_def)

lemma mset_sinkLeft: "mset (sinkLeft lt x ps) = add_mset x (mset ps)"
  by (induction ps) auto

lemma set_sinkLeft: "set (sinkLeft lt x ps) = insert x (set ps)"
  by (induction ps) auto

lemma mset_foldl_sinkLeft:
  "mset (foldl (\<lambda>acc x. sinkLeft lt x acc) acc xs) = mset acc + mset xs"
  by (induction xs arbitrary: acc) (auto simp: mset_sinkLeft)

lemma sorted_sinkLeft:
  assumes asym: "\<And>a b. lt a b \<Longrightarrow> \<not> lt b a"
    and negtrans: "\<And>a b c. \<not> lt a b \<Longrightarrow> \<not> lt b c \<Longrightarrow> \<not> lt a c"
    and sorted: "sorted_wrt (\<lambda>a b. \<not> lt a b) ps"
  shows "sorted_wrt (\<lambda>a b. \<not> lt a b) (sinkLeft lt x ps)"
  using sorted
proof (induction ps)
  case Nil
  then show ?case by simp
next
  case (Cons p ps)
  show ?case
  proof (cases "lt x p")
    case True
    with Cons asym show ?thesis
      by (auto simp: set_sinkLeft)
  next
    case False
    with Cons negtrans show ?thesis
      by auto
  qed
qed

lemma sorted_foldl_sinkLeft:
  assumes asym: "\<And>a b. lt a b \<Longrightarrow> \<not> lt b a"
    and negtrans: "\<And>a b c. \<not> lt a b \<Longrightarrow> \<not> lt b c \<Longrightarrow> \<not> lt a c"
  shows "sorted_wrt (\<lambda>a b. \<not> lt a b) acc \<Longrightarrow>
         sorted_wrt (\<lambda>a b. \<not> lt a b) (foldl (\<lambda>acc x. sinkLeft lt x acc) acc xs)"
proof (induction xs arbitrary: acc)
  case Nil
  then show ?case by simp
next
  case (Cons x xs)
  from sorted_sinkLeft [of lt acc x, OF asym negtrans Cons.prems]
  have "sorted_wrt (\<lambda>a b. \<not> lt a b) (sinkLeft lt x acc)" .
  from Cons.IH [OF this] show ?case by simp
qed

lemma insertionSort_byHostPath:
  "mset (insertionSort byHostPath_Less zs) = mset zs \<and>
   sorted_wrt (\<lambda>a b. \<not> byHostPath_Less b a) (insertionSort byHostPath_Less zs)"
proof -
  have "sorted_wrt (\<lambda>a b. \<not> byHostPath_Less a b)
          (foldl (\<lambda>acc x. sinkLeft byHostPath_Less x acc) [] zs)"
    by (rule sorted_foldl_sinkLeft) (auto simp: byHostPath_Less_key)
  then show ?thesis
    by (simp add: insertionSort_def mset_foldl_sinkLeft sorted_wrt_rev)
qed

text \<open>
  Where the order is right: a list in which no two different endpoints have the same
  host and path has one sorted permutation only, so every function that sorts returns
  the same list for every order of the arguments. This holds for \<^verbatim>\<open>sort.Sort\<close> on
  fewer than seven endpoints, and on more when \<open>sort_longSlice\<close> sorts.
\<close>

lemma sorted_permutation_unique:
  assumes srt: "\<And>zs. mset (srt zs) = mset zs \<and>
                      sorted_wrt (\<lambda>a b. \<not> byHostPath_Less b a) (srt zs)"
    and same: "mset xs = mset ys"
    and inj: "inj_on (\<lambda>u. (Host u, Path u)) (set xs)"
  shows "srt xs = srt ys"
proof -
  let ?key = "\<lambda>u. (Host u, Path u)"
  have sorted: "sorted (map ?key (srt zs))" for zs
  proof -
    from srt [of zs] have "sorted_wrt (\<lambda>a b. \<not> byHostPath_Less b a) (srt zs)" ..
    then have "sorted_wrt (\<lambda>a b. ?key a \<le> ?key b) (srt zs)"
      unfolding byHostPath_Less_key not_less .
    then show ?thesis
      unfolding sorted_map .
  qed
  from srt [of xs] have "mset xs = mset (srt xs)" by simp
  from sort_key_inj_key_eq [OF this inj sorted]
  have x: "sort_key ?key xs = srt xs" .
  from srt [of ys] same have "mset xs = mset (srt ys)" by simp
  from sort_key_inj_key_eq [OF this inj sorted]
  have y: "sort_key ?key xs = srt ys" .
  from x y show ?thesis by simp
qed

lemma sort_Sort_no_equal_keys:
  assumes long: "\<And>zs. mset (sort_longSlice E byHostPath_Less zs) = mset zs \<and>
      sorted_wrt (\<lambda>a b. \<not> byHostPath_Less b a) (sort_longSlice E byHostPath_Less zs)"
    and same: "mset xs = mset ys"
    and inj: "inj_on (\<lambda>u. (Host u, Path u)) (set xs)"
  shows "sort_Sort E byHostPath_Less xs = sort_Sort E byHostPath_Less ys"
proof (rule sorted_permutation_unique [OF _ same inj])
  fix zs
  show "mset (sort_Sort E byHostPath_Less zs) = mset zs \<and>
      sorted_wrt (\<lambda>a b. \<not> byHostPath_Less b a) (sort_Sort E byHostPath_Less zs)"
    using long [of zs] insertionSort_byHostPath [of zs]
    by (simp add: sort_Sort_def)
qed

text \<open>
  Where it is not: endpoints with the same host and path cannot be told apart by an
  order that reads the host and the path only, whatever that order is. For such an
  order, replacing each endpoint by one of the same host and path (\<open>f\<close>) in the
  arguments replaces it at the same place in the result of \<^verbatim>\<open>insertionSort\<close>, and so of
  \<^verbatim>\<open>sort.Sort\<close> on fewer than seven endpoints.
\<close>

lemma sinkLeft_map:
  assumes "\<And>a b. lt (f a) (f b) = lt a b"
  shows "sinkLeft lt (f x) (map f ps) = map f (sinkLeft lt x ps)"
  by (induction ps) (simp_all add: assms)

lemma foldl_sinkLeft_map:
  assumes "\<And>a b. lt (f a) (f b) = lt a b"
  shows "foldl (\<lambda>acc x. sinkLeft lt x acc) (map f acc) (map f xs) =
         map f (foldl (\<lambda>acc x. sinkLeft lt x acc) acc xs)"
proof (induction xs arbitrary: acc)
  case Nil
  then show ?case by simp
next
  case (Cons x xs)
  from Cons.IH [of "sinkLeft lt x acc"] show ?case
    by (simp add: sinkLeft_map [of lt f, OF assms])
qed

lemma insertionSort_map:
  assumes "\<And>a b. lt (f a) (f b) = lt a b"
  shows "insertionSort lt (map f xs) = map f (insertionSort lt xs)"
  using foldl_sinkLeft_map [of lt f "[]" xs, OF assms]
  by (simp add: insertionSort_def rev_map)

lemma sort_Sort_same_host_path:
  assumes reads: "\<And>a b a' b'. Host a = Host a' \<Longrightarrow> Path a = Path a' \<Longrightarrow>
      Host b = Host b' \<Longrightarrow> Path b = Path b' \<Longrightarrow> lt a b = lt a' b'"
    and keeps: "\<And>u. Host (f u) = Host u \<and> Path (f u) = Path u"
    and short: "length xs < 7"
  shows "sort_Sort E lt (map f xs) = map f (sort_Sort E lt xs)"
proof -
  have "lt (f a) (f b) = lt a b" for a b
    using keeps [of a] keeps [of b] by (intro reads) simp_all
  from insertionSort_map [of lt f xs, OF this] short show ?thesis
    by (simp add: sort_Sort_def)
qed





end
